theory Spec2Isabelle
  imports Main
begin

section \<open>Strings and truthiness of the host language\<close>

text \<open>
  A string is a sequence of code units below 256. In that range the white space of
  \<^verbatim>\<open>String.prototype.trim\<close> and of the regular expression class \<^verbatim>\<open>\s\<close> is
  TAB, LF, VT, FF, CR, SPACE and NBSP.
\<close>

definition isWhiteSpace :: "char \<Rightarrow> bool" where
  "isWhiteSpace c = (of_char c \<in> {9, 10, 11, 12, 13, 32, 160 :: nat})"

definition trim :: "string \<Rightarrow> string" where
  "trim s = rev (dropWhile isWhiteSpace (rev (dropWhile isWhiteSpace s)))"

text \<open>
  A property that holds a string or is undefined (\<open>None\<close>) is truthy when it is a
  non-empty string.
\<close>

fun truthy_str :: "string option \<Rightarrow> bool" where
  "truthy_str None = False"
| "truthy_str (Some s) = (s \<noteq> [])"

fun str_or_empty :: "string option \<Rightarrow> string" where
  "str_or_empty None = []"
| "str_or_empty (Some s) = s"

section \<open>The Logger (class \<^verbatim>\<open>Logger\<close>)\<close>

datatype colour = Bold | Cyan | Gray | Green | Magenta | Red | Yellow

datatype stream = Stdout | Stderr

text \<open>
  What a call makes observable, in order: a write to a process stream, or an event
  emitted to the listeners of the Logger (it extends \<^verbatim>\<open>EventEmitter\<close>).
\<close>

datatype effect = Write stream string | Emit string

text \<open>
  The library functions the class calls are parameters: \<open>paint\<close> is chalk's colouring
  of a string, \<open>now\<close> is what \<^verbatim>\<open>new Date().toISOString()\<close> returns at the call.
  The text handed to a logging method is \<^verbatim>\<open>format(msg, ...args)\<close>, already formatted.
\<close>

record runtime =
  paint :: "colour \<Rightarrow> string \<Rightarrow> string"
  now :: string

text \<open>
  The private field \<^verbatim>\<open>#level\<close> holds a number, or whatever \<^verbatim>\<open>this.levels[level]\<close>
  gave to \<^verbatim>\<open>setLevel\<close>: \<^verbatim>\<open>undefined\<close> for an unknown name, and a member of
  \<^verbatim>\<open>Object.prototype\<close> (an object or a function) for an inherited name.
\<close>

datatype threshold = Num int | Undefined | Inherited

record Logger =
  p_banner :: string
  p_bannerEnabled :: bool
  p_skipBanner :: bool
  p_bannerRendered :: bool
  p_level :: threshold
  p_timestampEnabled :: bool

definition new_Logger :: Logger where
  "new_Logger = \<lparr> p_banner = [], p_bannerEnabled = True, p_skipBanner = False,
     p_bannerRendered = False, p_level = Num 3, p_timestampEnabled = False \<rparr>"

definition levels :: "(string \<times> int) list" where
  "levels = [(''trace'', 1), (''debug'', 2), (''info'', 3), (''warn'', 4), (''error'', 5333)]"

definition object_prototype_names :: "string list" where
  "object_prototype_names = [''constructor'', ''hasOwnProperty'', ''isPrototypeOf'',
     ''propertyIsEnumerable'', ''toLocaleString'', ''toString'', ''valueOf'', ''__proto__'',
     ''__defineGetter__'', ''__defineSetter__'', ''__lookupGetter__'', ''__lookupSetter__'']"

text \<open>\<^verbatim>\<open>this.levels[level]\<close>\<close>

definition levels_get :: "string \<Rightarrow> threshold" where
  "levels_get name =
     (case map_of levels name of
        Some n \<Rightarrow> Num n
      | None \<Rightarrow> if name \<in> set object_prototype_names then Inherited else Undefined)"

text \<open>Truthiness of the field, as \<^verbatim>\<open>banner\<close> tests it.\<close>

fun truthy_level :: "threshold \<Rightarrow> bool" where
  "truthy_level (Num n) = (n \<noteq> 0)"
| "truthy_level Undefined = False"
| "truthy_level Inherited = True"

text \<open>
  \<^verbatim>\<open>level >= this.#level\<close> for a number \<open>level\<close>: a comparison with \<^verbatim>\<open>undefined\<close>, an
  object or a function compares with NaN and is false.
\<close>

fun level_ge :: "int \<Rightarrow> threshold \<Rightarrow> bool" where
  "level_ge l (Num n) = (n \<le> l)"
| "level_ge l Undefined = False"
| "level_ge l Inherited = False"

definition render :: "runtime \<Rightarrow> int \<Rightarrow> stream \<Rightarrow> string \<Rightarrow> Logger \<Rightarrow> effect list" where
  "render rt level out msg s =
     (if level_ge level (p_level s) then
        (if p_timestampEnabled s then [Write out (now rt @ '' - '')] else []) @ [Write out msg]
      else [])"

definition log :: "runtime \<Rightarrow> string \<Rightarrow> Logger \<Rightarrow> effect list" where
  "log rt text s = render rt 9 Stdout (text @ ''\<newline>'') s"

definition trace :: "runtime \<Rightarrow> string \<Rightarrow> Logger \<Rightarrow> effect list" where
  "trace rt text s =
     render rt 1 Stdout (paint rt Gray ''[TRACE]'' @ '' '' @ text @ ''\<newline>'') s"

definition debug :: "runtime \<Rightarrow> string \<Rightarrow> Logger \<Rightarrow> effect list" where
  "debug rt text s =
     render rt 2 Stdout (paint rt Magenta ''[DEBUG]'' @ '' '' @ text @ ''\<newline>'') s"

definition error :: "runtime \<Rightarrow> string \<Rightarrow> Logger \<Rightarrow> effect list" where
  "error rt text s =
     render rt 3 Stderr (paint rt Red (''[ERROR] '' @ text) @ ''\<newline>'') s"

definition info :: "runtime \<Rightarrow> string \<Rightarrow> Logger \<Rightarrow> effect list" where
  "info rt text s =
     render rt 4 Stdout (paint rt Green ''[INFO]'' @ ''  '' @ text @ ''\<newline>'') s"

definition warn :: "runtime \<Rightarrow> string \<Rightarrow> Logger \<Rightarrow> effect list" where
  "warn rt text s =
     render rt 5 Stdout (paint rt Yellow (''[WARN]  '' @ text) @ ''\<newline>'') s"

definition banner :: "Logger \<Rightarrow> Logger \<times> effect list" where
  "banner s =
     (if p_bannerEnabled s \<and> \<not> p_skipBanner s \<and> truthy_level (p_level s)
         \<and> \<not> p_bannerRendered s
      then (s\<lparr>p_bannerRendered := True\<rparr>,
            [Write Stdout (p_banner s), Write Stdout ''\<newline>'', Emit ''cli:logger-banner''])
      else (s, []))"

text \<open>
  The flag accessors take \<open>None\<close> for an absent argument and \<open>Some b\<close> for an argument
  whose truthiness is \<open>b\<close>; they return the flag after the call.
\<close>

definition bannerEnabled :: "bool option \<Rightarrow> Logger \<Rightarrow> bool \<times> Logger" where
  "bannerEnabled b s =
     (let s' = (case b of None \<Rightarrow> s | Some v \<Rightarrow> s\<lparr>p_bannerEnabled := v\<rparr>)
      in (p_bannerEnabled s', s'))"

definition bannerWasRendered :: "Logger \<Rightarrow> bool" where
  "bannerWasRendered s = p_bannerRendered s"

definition getBanner :: "Logger \<Rightarrow> string" where
  "getBanner s = p_banner s"

definition getLevels :: "string list" where
  "getLevels = map fst levels"

definition setBanner ::
  "runtime \<Rightarrow> string \<Rightarrow> string \<Rightarrow> string \<Rightarrow> string option \<Rightarrow> Logger \<Rightarrow> Logger" where
  "setBanner rt name copyright version sdkVersion s =
     s\<lparr>p_banner :=
        paint rt Bold (paint rt Cyan name) @ '' v'' @ version
        @ (if truthy_str sdkVersion then '' SDK v'' @ str_or_empty sdkVersion else [])
        @ ''\<newline>'' @ copyright @ ''\<newline>\<newline>Want to help? ''
        @ paint rt Cyan ''https://tidev.io/donate'' @ '' or ''
        @ paint rt Cyan ''https://tidev.io/contribute'' @ ''\<newline>''\<rparr>"

definition setLevel :: "string \<Rightarrow> Logger \<Rightarrow> Logger" where
  "setLevel level s = s\<lparr>p_level := levels_get level\<rparr>"

definition silence :: "Logger \<Rightarrow> Logger" where
  "silence s = s\<lparr>p_level := Num 0\<rparr>"

definition skipBanner :: "bool option \<Rightarrow> Logger \<Rightarrow> bool \<times> Logger" where
  "skipBanner b s =
     (let s' = (case b of None \<Rightarrow> s | Some v \<Rightarrow> s\<lparr>p_skipBanner := v\<rparr>)
      in (p_skipBanner s', s'))"

definition timestampEnabled :: "bool option \<Rightarrow> Logger \<Rightarrow> bool \<times> Logger" where
  "timestampEnabled b s =
     (let s' = (case b of None \<Rightarrow> s | Some v \<Rightarrow> s\<lparr>p_timestampEnabled := v\<rparr>)
      in (p_timestampEnabled s', s'))"

subsection \<open>Sequences of calls on one Logger\<close>

text \<open>
  Every public method of the class, as a call. The private fields change through these
  calls only, so a process is a sequence of them on the Logger created at its start.
\<close>

datatype call =
    Log string | Trace string | Debug string | Error string | Info string | Warn string
  | Banner | BannerEnabled "bool option" | BannerWasRendered | GetBanner | GetLevels
  | Render int stream string | SetBanner string string string "string option"
  | SetLevel string | Silence | SkipBanner "bool option" | TimestampEnabled "bool option"

fun step :: "runtime \<Rightarrow> call \<Rightarrow> Logger \<Rightarrow> Logger \<times> effect list" where
  "step rt (Log t) s = (s, log rt t s)"
| "step rt (Trace t) s = (s, trace rt t s)"
| "step rt (Debug t) s = (s, debug rt t s)"
| "step rt (Error t) s = (s, error rt t s)"
| "step rt (Info t) s = (s, info rt t s)"
| "step rt (Warn t) s = (s, warn rt t s)"
| "step rt Banner s = banner s"
| "step rt (BannerEnabled b) s = (snd (bannerEnabled b s), [])"
| "step rt BannerWasRendered s = (s, [])"
| "step rt GetBanner s = (s, [])"
| "step rt GetLevels s = (s, [])"
| "step rt (Render l out msg) s = (s, render rt l out msg s)"
| "step rt (SetBanner n c v sdk) s = (setBanner rt n c v sdk s, [])"
| "step rt (SetLevel l) s = (setLevel l s, [])"
| "step rt Silence s = (silence s, [])"
| "step rt (SkipBanner b) s = (snd (skipBanner b s), [])"
| "step rt (TimestampEnabled b) s = (snd (timestampEnabled b s), [])"

text \<open>The calls of a sequence, each with what it made observable.\<close>

fun transcript :: "(runtime \<times> call) list \<Rightarrow> Logger \<Rightarrow> (call \<times> effect list) list" where
  "transcript [] s = []"
| "transcript ((rt, c) # cs) s = (c, snd (step rt c s)) # transcript cs (fst (step rt c s))"

definition banner_renders :: "(runtime \<times> call) list \<Rightarrow> Logger \<Rightarrow> nat" where
  "banner_renders cs s =
     length (filter (\<lambda>(c, out). c = Banner \<and> out \<noteq> []) (transcript cs s))"

text \<open>The texts a list of observations writes to one stream, in order.\<close>

fun writes_to :: "stream \<Rightarrow> effect list \<Rightarrow> string list" where
  "writes_to st [] = []"
| "writes_to st (Write st' t # os) = (if st' = st then [t] else []) @ writes_to st os"
| "writes_to st (Emit e # os) = writes_to st os"

text \<open>A runtime without colours and with a fixed clock, for concrete evaluation.\<close>

definition plain_runtime :: runtime where
  "plain_runtime = \<lparr> paint = (\<lambda>c t. t), now = ''2024-01-01T00:00:00.000Z'' \<rparr>"

section \<open>Command descriptors and command nodes\<close>

text \<open>Values held by a descriptor or produced by parsing.\<close>

datatype jsval = VUndefined | VNull | VBool bool | VNum int | VStr string

fun truthy :: "jsval \<Rightarrow> bool" where
  "truthy VUndefined = False"
| "truthy VNull = False"
| "truthy (VBool b) = b"
| "truthy (VNum n) = (n \<noteq> 0)"
| "truthy (VStr s) = (s \<noteq> [])"

text \<open>
  The metadata of one entry of a descriptor's \<^verbatim>\<open>flags\<close> or \<^verbatim>\<open>options\<close> map, as
  \<^verbatim>\<open>applyCommandConfig\<close> reads it: \<open>m_hidden\<close> is the truthiness of \<^verbatim>\<open>meta.hidden\<close>,
  \<open>m_default\<close> is \<open>VUndefined\<close> when there is no default, \<open>m_values\<close> is \<open>Some\<close> exactly
  when \<^verbatim>\<open>meta.values\<close> is an array, \<open>m_callback\<close> is \<open>Some\<close> (a handle of the function)
  exactly when \<^verbatim>\<open>meta.callback\<close> is a function.
\<close>

record meta =
  m_abbr :: "string option"
  m_desc :: string
  m_hidden :: bool
  m_default :: jsval
  m_values :: "jsval list option"
  m_callback :: "nat option"

record argmeta =
  a_name :: string
  a_desc :: string
  a_required :: bool
  a_variadic :: bool
  a_default :: jsval
  a_values :: "jsval list option"

text \<open>
  A descriptor. The maps are the lists of their entries in \<^verbatim>\<open>Object.entries\<close> order; an
  absent map and an empty one register nothing alike. \<open>c_args\<close> is \<open>Some\<close> exactly when
  \<^verbatim>\<open>conf.args\<close> is an array.
\<close>

datatype conf = Conf
  (c_title: "string option")
  (c_alias: "string option")
  (c_flags: "(string \<times> meta) list")
  (c_options: "(string \<times> meta) list")
  (c_args: "argmeta list option")
  (c_subcommands: "(string \<times> conf) list")
  (c_defaultSubcommand: "string option")
  (c_hidden: bool)
  (c_platforms: "(string \<times> conf) list option")

text \<open>
  The option object built by \<^verbatim>\<open>new Option(flags, description)\<close> and its setters.
  \<open>o_flags\<close> and \<open>o_description\<close> are the two arguments as the source builds them. The
  parsing library reads the flags back into a short flag, a long flag and a value placeholder:
  \<open>o_short\<close> is the short flag \<^verbatim>\<open>-<abbr>\<close> when the flags start with one, \<open>o_name\<close> is the
  name after \<^verbatim>\<open>--\<close>, and \<open>o_takes_value\<close> says that the flags name a value after the switch,
  as in \<^verbatim>\<open>--name [value]\<close>.
\<close>

record cmd_option =
  o_flags :: string
  o_description :: string
  o_short :: "string option"
  o_name :: string
  o_takes_value :: bool
  o_hidden :: bool
  o_defaultValue :: jsval
  o_argChoices :: "jsval list option"

text \<open>
  The argument object built by \<^verbatim>\<open>new Argument(fmt, description)\<close> and its setters;
  \<open>g_required\<close> and \<open>g_variadic\<close> are what the library reads back from the brackets and the
  dots of \<open>g_fmt\<close>.
\<close>

record argument =
  g_fmt :: string
  g_description :: string
  g_required :: bool
  g_variadic :: bool
  g_defaultValue :: jsval
  g_argChoices :: "jsval list option"

text \<open>
  The closures the Registrar installs are data: a \<^verbatim>\<open>preAction\<close> hook keeps what its closure
  captures (the entry's name, its option object, its callback and the descriptor's
  \<^verbatim>\<open>platforms\<close>); the only listener is the one of the synthetic \<^verbatim>\<open>--timestamp\<close>; the
  behaviours are the four installed on every subcommand: the help text callback that shows
  the banner, the help configuration (\<^verbatim>\<open>helpWidth\<close>, \<^verbatim>\<open>showGlobalOptions\<close>,
  \<^verbatim>\<open>sortSubcommands\<close>), the \<^verbatim>\<open>outputError\<close> that throws, and the action that calls
  \<^verbatim>\<open>cli.executeCommand\<close>.
\<close>

record hook =
  h_name :: string
  h_opt :: cmd_option
  h_callback :: "nat option"
  h_platforms :: "(string \<times> conf) list option"

datatype listener = EnableTimestampWhenReady

datatype behaviour =
    HelpBanner
  | HelpConfig nat bool bool
  | OutputErrorRaises
  | ActionExecute

text \<open>
  What \<^verbatim>\<open>conf.platforms?.[value]\<close> finds: a descriptor of the map, or the member of
  \<^verbatim>\<open>Object.prototype\<close> of that name.
\<close>

datatype platform_entry = PlatformConf conf | PrototypeMember string

record command =
  cmd_name :: string
  cmd_title :: "string option"
  cmd_aliases :: "string list"
  cmd_options :: "cmd_option list"
  cmd_hooks :: "hook list"
  cmd_listeners :: "(string \<times> listener) list"
  cmd_args :: "argument list"
  cmd_behaviours :: "behaviour list"
  cmd_conf :: "conf option"
  cmd_module :: "nat option"
  cmd_platform :: "platform_entry option"

text \<open>
  A command node: its own data and its subcommands, each with the \<^verbatim>\<open>isDefault\<close> and
  \<^verbatim>\<open>hidden\<close> marks given to \<^verbatim>\<open>addCommand\<close>.
\<close>

datatype node = Node (n_data: command) (n_commands: "(node \<times> bool \<times> bool) list")

definition new_Command :: "string \<Rightarrow> node" where
  "new_Command name =
     Node \<lparr> cmd_name = name, cmd_title = None, cmd_aliases = [], cmd_options = [],
            cmd_hooks = [], cmd_listeners = [], cmd_args = [], cmd_behaviours = [],
            cmd_conf = None, cmd_module = None, cmd_platform = None \<rparr> []"

definition update_data :: "(command \<Rightarrow> command) \<Rightarrow> node \<Rightarrow> node" where
  "update_data f cmd = Node (f (n_data cmd)) (n_commands cmd)"

abbreviation options_of :: "node \<Rightarrow> cmd_option list" where
  "options_of cmd \<equiv> cmd_options (n_data cmd)"

subsection \<open>The calls on a command node\<close>

text \<open>
  The calls of the parsing library on a node record what they are given, in the order of the
  calls, unless the library refuses them with an error, which leaves the Registrar as a throw.
\<close>

datatype reg_error =
    ConflictingFlag string string
  | AliasIsName string
  | VariadicNotLast string
  | UnusedDefault string
  | MissingName
  | CommandExists string

definition long_flag :: "cmd_option \<Rightarrow> string" where
  "long_flag opt = ''--'' @ o_name opt"

definition is_flag :: "cmd_option \<Rightarrow> string \<Rightarrow> bool" where
  "is_flag opt arg = (o_short opt = Some arg \<or> long_flag opt = arg)"

text \<open>
  The flag of a new option that an option of the node already uses: the long flag when it is
  in use, else the short flag when there is one and it is in use.
\<close>

definition conflicting_flag :: "cmd_option list \<Rightarrow> cmd_option \<Rightarrow> string option" where
  "conflicting_flag opts new =
     (if list_ex (\<lambda>opt. is_flag opt (long_flag new)) opts then Some (long_flag new)
      else (case o_short new of
              None \<Rightarrow> None
            | Some s \<Rightarrow> if list_ex (\<lambda>opt. is_flag opt s) opts then Some s else None))"

text \<open>
  \<^verbatim>\<open>cmd.addOption(opt)\<close>, and \<^verbatim>\<open>cmd.option(flags, description)\<close> which builds the option
  and adds it: a switch whose flag is already in use on the node is refused.
\<close>

definition addOption :: "cmd_option \<Rightarrow> node \<Rightarrow> reg_error + node" where
  "addOption opt cmd =
     (case conflicting_flag (options_of cmd) opt of
        Some flag \<Rightarrow> Inl (ConflictingFlag (o_flags opt) flag)
      | None \<Rightarrow> Inr (update_data (\<lambda>d. d\<lparr>cmd_options := cmd_options d @ [opt]\<rparr>) cmd))"

text \<open>\<^verbatim>\<open>cmd.hook('preAction', fn)\<close> and \<^verbatim>\<open>cmd.on(event, fn)\<close>\<close>

definition addHook :: "hook \<Rightarrow> node \<Rightarrow> node" where
  "addHook h = update_data (\<lambda>d. d\<lparr>cmd_hooks := cmd_hooks d @ [h]\<rparr>)"

definition addListener :: "string \<Rightarrow> listener \<Rightarrow> node \<Rightarrow> node" where
  "addListener ev l = update_data (\<lambda>d. d\<lparr>cmd_listeners := cmd_listeners d @ [(ev, l)]\<rparr>)"

text \<open>
  \<^verbatim>\<open>cmd.alias(alias)\<close>: an alias equal to the name of the command is refused. (The library
  also refuses an alias that a sibling of the command uses; the parent of a node is outside
  this model, and a subcommand has none yet when the Registrar sets its alias.)
\<close>

definition set_alias :: "string \<Rightarrow> node \<Rightarrow> reg_error + node" where
  "set_alias a cmd =
     (if a = cmd_name (n_data cmd) then Inl (AliasIsName a)
      else Inr (update_data (\<lambda>d. d\<lparr>cmd_aliases := cmd_aliases d @ [a]\<rparr>) cmd))"

text \<open>
  \<^verbatim>\<open>cmd.addArgument(arg)\<close>: an argument after a variadic one is refused, and so is a required
  argument with a default and no choices.
\<close>

definition addArgument :: "argument \<Rightarrow> node \<Rightarrow> reg_error + node" where
  "addArgument arg cmd =
     (if cmd_args (n_data cmd) \<noteq> [] \<and> g_variadic (last (cmd_args (n_data cmd)))
      then Inl (VariadicNotLast (g_fmt (last (cmd_args (n_data cmd)))))
      else if g_required arg \<and> g_defaultValue arg \<noteq> VUndefined \<and> g_argChoices arg = None
      then Inl (UnusedDefault (g_fmt arg))
      else Inr (update_data (\<lambda>d. d\<lparr>cmd_args := cmd_args d @ [arg]\<rparr>) cmd))"

text \<open>
  \<^verbatim>\<open>cmd.addCommand(subcmd, {isDefault, hidden})\<close>: a subcommand without a name is refused,
  and so is one whose name or alias a subcommand of the node already uses.
\<close>

definition findCommand :: "node \<Rightarrow> string \<Rightarrow> node option" where
  "findCommand cmd name =
     (if name = [] then None
      else find (\<lambda>sub. cmd_name (n_data sub) = name \<or> name \<in> set (cmd_aliases (n_data sub)))
             (map fst (n_commands cmd)))"

definition addCommand :: "node \<Rightarrow> bool \<Rightarrow> bool \<Rightarrow> node \<Rightarrow> reg_error + node" where
  "addCommand sub isDefault hidden cmd =
     (if cmd_name (n_data sub) = [] then Inl MissingName
      else (case find (\<lambda>name. findCommand cmd name \<noteq> None)
                   (cmd_name (n_data sub) # cmd_aliases (n_data sub)) of
              Some name \<Rightarrow> Inl (CommandExists name)
            | None \<Rightarrow> Inr (Node (n_data cmd) (n_commands cmd @ [(sub, isDefault, hidden)]))))"

text \<open>
  The part of the \<^verbatim>\<open>CLI\<close> object the code under study reads and writes. \<open>cli_debugLog\<close>
  collects the notes handed to \<^verbatim>\<open>cli.debugLogger.trace\<close>.
\<close>

record cli =
  cli_logger :: Logger
  cli_debugLog :: "string list"
  cli_ready :: bool
  cli_command :: "node option"
  cli_program :: "node option"

definition debugTrace :: "string \<Rightarrow> cli \<Rightarrow> cli" where
  "debugTrace note c = c\<lparr>cli_debugLog := cli_debugLog c @ [note]\<rparr>"

text \<open>
  What the process does, in order: an observation of the Logger or a write of the console,
  a call of a descriptor's callback, the help of a node, the end of the process with an exit
  code, the run behaviour of a command, and a \<^verbatim>\<open>TypeError\<close> that nothing catches.
\<close>

datatype event =
    Out effect
  | CallbackCalled nat jsval
  | Help node
  | Exit nat
  | RunCommand node
  | UncaughtTypeError

section \<open>The Registrar (\<^verbatim>\<open>applyCommandConfig\<close>)\<close>

text \<open>
  A throw of the Registrar is the value \<open>Inl\<close> of the error; the notes it traced before
  the throw are not part of that value.
\<close>

definition and_then :: "'e + 'a \<Rightarrow> ('a \<Rightarrow> 'e + 'b) \<Rightarrow> 'e + 'b" where
  "and_then r f = (case r of Inl err \<Rightarrow> Inl err | Inr x \<Rightarrow> f x)"

text \<open>\<^verbatim>\<open>${meta.abbr ? `-${meta.abbr}, ` : ''}\<close>, and the short flag the library reads from it.\<close>

definition abbr_prefix :: "meta \<Rightarrow> string" where
  "abbr_prefix m =
     (if truthy_str (m_abbr m) then ''-'' @ str_or_empty (m_abbr m) @ '', '' else [])"

definition short_flag :: "meta \<Rightarrow> string option" where
  "short_flag m =
     (if truthy_str (m_abbr m) then Some (''-'' @ str_or_empty (m_abbr m)) else None)"

definition flag_Option :: "string \<Rightarrow> meta \<Rightarrow> cmd_option" where
  "flag_Option name m =
     \<lparr> o_flags = abbr_prefix m @ ''--'' @ name, o_description = m_desc m,
       o_short = short_flag m, o_name = name, o_takes_value = False, o_hidden = m_hidden m,
       o_defaultValue = VUndefined, o_argChoices = None \<rparr>"

definition option_Option :: "string \<Rightarrow> meta \<Rightarrow> cmd_option" where
  "option_Option name m =
     \<lparr> o_flags = abbr_prefix m @ ''--'' @ name @ '' [value]'', o_description = m_desc m,
       o_short = short_flag m, o_name = name, o_takes_value = True, o_hidden = m_hidden m,
       o_defaultValue = m_default m, o_argChoices = m_values m \<rparr>"

definition timestamp_Option :: cmd_option where
  "timestamp_Option =
     \<lparr> o_flags = ''--timestamp'',
       o_description = ''displays a timestamp in front of log lines'',
       o_short = None, o_name = ''timestamp'', o_takes_value = False, o_hidden = False,
       o_defaultValue = VUndefined, o_argChoices = None \<rparr>"

fun apply_flags ::
  "string \<Rightarrow> (string \<times> meta) list \<Rightarrow> cli \<times> node \<Rightarrow> reg_error + cli \<times> node" where
  "apply_flags cmdName [] st = Inr st"
| "apply_flags cmdName ((name, m) # rest) (c, cmd) =
     (case addOption (flag_Option name m) cmd of
        Inl err \<Rightarrow> Inl err
      | Inr cmd' \<Rightarrow>
          apply_flags cmdName rest
            (debugTrace (''Adding \"'' @ cmdName @ ''\" flag: '' @ abbr_prefix m @ ''--'' @ name) c,
             cmd'))"

definition option_hook :: "conf \<Rightarrow> string \<Rightarrow> meta \<Rightarrow> hook" where
  "option_hook cf name m =
     \<lparr> h_name = name, h_opt = option_Option name m, h_callback = m_callback m,
       h_platforms = c_platforms cf \<rparr>"

fun apply_options ::
  "conf \<Rightarrow> string \<Rightarrow> (string \<times> meta) list \<Rightarrow> cli \<times> node \<Rightarrow> reg_error + cli \<times> node" where
  "apply_options cf cmdName [] st = Inr st"
| "apply_options cf cmdName ((name, m) # rest) (c, cmd) =
     (if name = ''sdk'' then
        apply_options cf cmdName rest
          (debugTrace (''Skipping \"'' @ cmdName @ ''\" option: --'' @ name) c, cmd)
      else
        (case addOption (option_Option name m) cmd of
           Inl err \<Rightarrow> Inl err
         | Inr cmd' \<Rightarrow>
             apply_options cf cmdName rest
               (debugTrace (''Adding \"'' @ cmdName @ ''\" option: '' @ abbr_prefix m @ ''--''
                             @ name @ '' [value]'') c,
                (if m_callback m \<noteq> None \<or> name = ''platform''
                 then addHook (option_hook cf name m) cmd' else cmd'))))"

definition apply_timestamp :: "conf \<Rightarrow> string \<Rightarrow> cli \<times> node \<Rightarrow> reg_error + cli \<times> node" where
  "apply_timestamp cf cmdName st =
     (if map_of (c_options cf) ''log-level'' \<noteq> None \<and> map_of (c_options cf) ''timestamp'' = None
      then (case addOption timestamp_Option (snd st) of
              Inl err \<Rightarrow> Inl err
            | Inr cmd' \<Rightarrow>
                Inr (debugTrace (''Adding \"'' @ cmdName @ ''\" option: --timestamp'') (fst st),
                     addListener ''option:timestamp'' EnableTimestampWhenReady cmd'))
      else Inr st)"

definition arg_fmt :: "argmeta \<Rightarrow> string" where
  "arg_fmt a =
     (let v = (if a_variadic a then ''...'' else [])
      in if a_required a then ''<'' @ a_name a @ v @ ''>'' else ''['' @ a_name a @ v @ '']'')"

definition new_Argument :: "argmeta \<Rightarrow> argument" where
  "new_Argument a =
     \<lparr> g_fmt = arg_fmt a, g_description = a_desc a, g_required = a_required a,
       g_variadic = a_variadic a, g_defaultValue = a_default a, g_argChoices = a_values a \<rparr>"

fun apply_args :: "string \<Rightarrow> argmeta list \<Rightarrow> cli \<times> node \<Rightarrow> reg_error + cli \<times> node" where
  "apply_args cmdName [] st = Inr st"
| "apply_args cmdName (a # rest) (c, cmd) =
     (case addArgument (new_Argument a) cmd of
        Inl err \<Rightarrow> Inl err
      | Inr cmd' \<Rightarrow>
          apply_args cmdName rest
            (debugTrace (''Adding \"'' @ cmdName @ ''\" arg: '' @ arg_fmt a) c, cmd'))"

text \<open>
  The subcommand node as the chain of calls after \<^verbatim>\<open>new Command(name)\<close> leaves it; \<open>width\<close>
  is \<^verbatim>\<open>ticonfig.get('cli.width', 80)\<close>.
\<close>

definition new_subcommand :: "nat \<Rightarrow> string \<Rightarrow> node" where
  "new_subcommand width name =
     update_data
       (\<lambda>d. d\<lparr>cmd_behaviours :=
               [HelpBanner, HelpConfig width True True, OutputErrorRaises, ActionExecute]\<rparr>)
       (new_Command name)"

text \<open>
  \<^verbatim>\<open>cli.applyConfig\<close> is a method of the \<^verbatim>\<open>CLI\<close> class, taken as the parameter
  \<open>applyConfig\<close>.
\<close>

fun apply_subcommands ::
  "(string \<Rightarrow> node \<Rightarrow> conf \<Rightarrow> cli \<Rightarrow> reg_error + cli \<times> node) \<Rightarrow> nat \<Rightarrow> conf \<Rightarrow> string
     \<Rightarrow> (string \<times> conf) list \<Rightarrow> cli \<times> node \<Rightarrow> reg_error + cli \<times> node" where
  "apply_subcommands applyConfig width cf cmdName [] st = Inr st"
| "apply_subcommands applyConfig width cf cmdName ((name, subconf) # rest) (c, cmd) =
     (case applyConfig name (new_subcommand width name) subconf
             (debugTrace (''Adding subcommand \"'' @ name @ ''\"''
                @ (if c_defaultSubcommand cf = Some name then '' (default)'' else [])
                @ '' to \"'' @ cmdName @ ''\"'') c) of
        Inl err \<Rightarrow> Inl err
      | Inr (c2, sub) \<Rightarrow>
          (case addCommand
                  (update_data
                     (\<lambda>d. d\<lparr>cmd_conf := Some subconf, cmd_module := cmd_module (n_data cmd)\<rparr>)
                     sub)
                  (c_defaultSubcommand cf = Some name) (c_hidden subconf) cmd of
             Inl err \<Rightarrow> Inl err
           | Inr cmd' \<Rightarrow> apply_subcommands applyConfig width cf cmdName rest (c2, cmd')))"

definition applyCommandConfig ::
  "(string \<Rightarrow> node \<Rightarrow> conf \<Rightarrow> cli \<Rightarrow> reg_error + cli \<times> node) \<Rightarrow> nat
     \<Rightarrow> cli \<Rightarrow> string \<Rightarrow> node \<Rightarrow> conf \<Rightarrow> reg_error + cli \<times> node" where
  "applyCommandConfig applyConfig width c cmdName cmd cf =
     (let cmd1 = (if truthy_str (c_title cf)
                  then update_data (\<lambda>d. d\<lparr>cmd_title := c_title cf\<rparr>) cmd else cmd)
      in and_then (if truthy_str (c_alias cf) then set_alias (str_or_empty (c_alias cf)) cmd1
                   else Inr cmd1)
        (\<lambda>cmd2. and_then (apply_flags cmdName (c_flags cf) (c, cmd2))
        (\<lambda>st3. and_then (apply_options cf cmdName (c_options cf) st3)
        (\<lambda>st4. and_then (apply_timestamp cf cmdName st4)
        (\<lambda>st5. and_then (case c_args cf of None \<Rightarrow> Inr st5
                                          | Some as \<Rightarrow> apply_args cmdName as st5)
        (\<lambda>st6. apply_subcommands applyConfig width cf cmdName (c_subcommands cf) st6))))))"

subsection \<open>The recursion through \<^verbatim>\<open>cli.applyConfig\<close>\<close>

lemma apply_subcommands_cong [fundef_cong]:
  assumes "subs = subs'" "st = st'" "w = w'" "cf = cf'" "cmdName = cmdName'"
    and "\<And>name sub subconf c.
           subconf \<in> snd ` set subs' \<Longrightarrow> ac name sub subconf c = ac' name sub subconf c"
  shows "apply_subcommands ac w cf cmdName subs st
           = apply_subcommands ac' w' cf' cmdName' subs' st'"
  using assms
proof (induction subs arbitrary: subs' st st')
  case Nil
  then show ?case by simp
next
  case (Cons a subs)
  obtain name subconf where a: "a = (name, subconf)" by (cases a)
  obtain c cmd where st: "st' = (c, cmd)" by (cases st')
  show ?case using Cons.prems Cons.IH unfolding a st
    by (auto split: sum.splits prod.splits)
qed

lemma applyCommandConfig_cong [fundef_cong]:
  assumes "c = c'" "cmd = cmd'" "w = w'" "cf = cf'" "cmdName = cmdName'"
    and "\<And>name sub subconf c.
           subconf \<in> snd ` set (c_subcommands cf')
             \<Longrightarrow> ac name sub subconf c = ac' name sub subconf c"
  shows "applyCommandConfig ac w c cmdName cmd cf
           = applyCommandConfig ac' w' c' cmdName' cmd' cf'"
proof -
  have eq: "apply_subcommands ac w' cf' cmdName' (c_subcommands cf')
          = apply_subcommands ac' w' cf' cmdName' (c_subcommands cf')"
    by (rule ext, rule apply_subcommands_cong) (simp_all add: assms(6))
  show ?thesis
    unfolding applyCommandConfig_def assms(1-5) eq by (rule refl)
qed

lemma size_subconf: "subconf \<in> snd ` set (c_subcommands cf) \<Longrightarrow> size subconf < size cf"
  by (cases cf)
     (auto simp add: less_Suc_eq_le
        dest!: size_list_estimation' [where f = "size_prod (\<lambda>_. 0) size" and y = "size subconf"])

text \<open>
  Modelled from the spec: the method \<^verbatim>\<open>applyConfig\<close> of the \<^verbatim>\<open>CLI\<close> class is not under
  \<^verbatim>\<open>src/\<close>. The spec has "for each subcommand entry, the Registrar recursively wires the
  sub-descriptor into a new child command node": the method hands the child to
  \<^verbatim>\<open>applyCommandConfig\<close> again.
\<close>

function applyConfig ::
  "nat \<Rightarrow> string \<Rightarrow> node \<Rightarrow> conf \<Rightarrow> cli \<Rightarrow> reg_error + cli \<times> node" where
  "applyConfig width cmdName cmd cf c =
     applyCommandConfig (\<lambda>name sub subconf c'. applyConfig width name sub subconf c')
       width c cmdName cmd cf"
  by pat_completeness auto
termination
  by (relation "measure (\<lambda>(width, cmdName, cmd, cf, c). size cf)") (simp_all add: size_subconf)

declare applyConfig.simps [simp del]

text \<open>The \<^verbatim>\<open>CLI\<close> object at the start of a process, before it is ready.\<close>

definition new_cli :: cli where
  "new_cli = \<lparr> cli_logger = new_Logger, cli_debugLog = [], cli_ready = False,
               cli_command = None, cli_program = None \<rparr>"

subsection \<open>What the installed closures do\<close>

text \<open>
  The listener of \<^verbatim>\<open>option:timestamp\<close>:
  \<^verbatim>\<open>if (cli.ready) { cli.logger.timestampEnabled(true); }\<close>
\<close>

fun fire_listener :: "listener \<Rightarrow> cli \<Rightarrow> cli" where
  "fire_listener EnableTimestampWhenReady c =
     (if cli_ready c
      then c\<lparr>cli_logger := snd (timestampEnabled (Some True) (cli_logger c))\<rparr>
      else c)"

text \<open>\<^verbatim>\<open>cmd.emit(event)\<close>: the listeners registered for the event fire in order.\<close>

definition emit_event :: "node \<Rightarrow> string \<Rightarrow> cli \<Rightarrow> cli" where
  "emit_event cmd ev c =
     fold fire_listener (map snd (filter (\<lambda>(e, l). e = ev) (cmd_listeners (n_data cmd)))) c"

text \<open>
  The help text callback of a subcommand (\<open>HelpBanner\<close>):
  \<^verbatim>\<open>cli.logger.bannerEnabled(true); cli.logger.skipBanner(false); cli.logger.banner();\<close>
\<close>

definition help_banner :: "cli \<Rightarrow> cli \<times> effect list" where
  "help_banner c =
     (let l1 = snd (bannerEnabled (Some True) (cli_logger c));
          l2 = snd (skipBanner (Some False) l1);
          (l3, out) = banner l2
      in (c\<lparr>cli_logger := l3\<rparr>, out))"

text \<open>
  A thrown value, by what the top-level handler reads of it. \<open>TiError m b a\<close> is an instance
  of \<^verbatim>\<open>TiError\<close> with its message and its optional \<^verbatim>\<open>before\<close> and \<^verbatim>\<open>after\<close> blocks.
  \<open>OtherValue st b a\<close> is any other value that has properties, by its \<^verbatim>\<open>stack\<close>,
  \<^verbatim>\<open>before\<close> and \<^verbatim>\<open>after\<close>: an \<^verbatim>\<open>Error\<close> has a stack, a thrown string or plain object has
  none (\<open>None\<close>). \<open>Nullish\<close> is a thrown \<^verbatim>\<open>null\<close> or \<^verbatim>\<open>undefined\<close>.
\<close>

datatype failure =
    TiError string "string option" "string option"
  | OtherValue "string option" "string option" "string option"
  | Nullish

fun f_before :: "failure \<Rightarrow> string option" where
  "f_before (TiError m b a) = b"
| "f_before (OtherValue st b a) = b"
| "f_before Nullish = None"

fun f_after :: "failure \<Rightarrow> string option" where
  "f_after (TiError m b a) = a"
| "f_after (OtherValue st b a) = a"
| "f_after Nullish = None"

text \<open>\<^verbatim>\<open>msg.replace(/^error:\s*/, '')\<close>\<close>

definition strip_error_prefix :: "string \<Rightarrow> string" where
  "strip_error_prefix msg =
     (if take 6 msg = ''error:'' then dropWhile isWhiteSpace (drop 6 msg) else msg)"

text \<open>
  The \<^verbatim>\<open>outputError\<close> of a subcommand (\<open>OutputErrorRaises\<close>), called on the subcommand
  \<open>subcmd\<close> it is installed on: it makes the subcommand the current command and throws.
\<close>

definition outputError :: "node \<Rightarrow> string \<Rightarrow> cli \<Rightarrow> cli \<times> failure" where
  "outputError subcmd msg c =
     (c\<lparr>cli_command := Some subcmd\<rparr>, TiError (strip_error_prefix msg) None None)"

text \<open>
  The property key a value is converted to. \<open>numstr\<close> is the host's conversion of a number to
  a string, a parameter.
\<close>

fun to_key :: "(int \<Rightarrow> string) \<Rightarrow> jsval \<Rightarrow> string" where
  "to_key numstr VUndefined = ''undefined''"
| "to_key numstr VNull = ''null''"
| "to_key numstr (VBool b) = (if b then ''true'' else ''false'')"
| "to_key numstr (VNum n) = numstr n"
| "to_key numstr (VStr s) = s"

text \<open>
  \<^verbatim>\<open>conf.platforms?.[value]\<close>: nothing when there is no \<^verbatim>\<open>platforms\<close> map, else the entry
  of the map under the key, else the member of \<^verbatim>\<open>Object.prototype\<close> of that name, if any.
\<close>

definition platform_lookup :: "(string \<times> conf) list option \<Rightarrow> string \<Rightarrow> platform_entry option" where
  "platform_lookup platforms key =
     (case platforms of
        None \<Rightarrow> None
      | Some ps \<Rightarrow>
          (case map_of ps key of
             Some platformConf \<Rightarrow> Some (PlatformConf platformConf)
           | None \<Rightarrow>
               if key \<in> set object_prototype_names then Some (PrototypeMember key) else None))"

text \<open>
  A \<^verbatim>\<open>preAction\<close> hook, run on the node named \<open>cmdname\<close> whose option values are \<open>vals\<close>
  (\<^verbatim>\<open>cmd.getOptionValue\<close> reads them; an unset value is \<^verbatim>\<open>undefined\<close>). \<open>hook_value\<close> is
  \<^verbatim>\<open>cmd.getOptionValue(opt.attributeName()) || opt.defaultValue\<close>. The result of \<open>run_hook\<close>
  holds the events of the run and whether it returned: assigning to
  \<^verbatim>\<open>cli.command.platform\<close> throws when there is no current command.
\<close>

definition hook_value :: "(string \<times> jsval) list \<Rightarrow> hook \<Rightarrow> jsval" where
  "hook_value vals h =
     (let stored = (case map_of vals (o_name (h_opt h)) of None \<Rightarrow> VUndefined | Some v \<Rightarrow> v)
      in if truthy stored then stored else o_defaultValue (h_opt h))"

definition run_hook ::
  "(int \<Rightarrow> string) \<Rightarrow> string \<Rightarrow> (string \<times> jsval) list \<Rightarrow> hook \<Rightarrow> cli
     \<Rightarrow> cli \<times> event list \<times> bool" where
  "run_hook numstr cmdname vals h c =
     (let val = hook_value vals h;
          ev = Out (Write Stdout (''preAction '' @ cmdname @ '' --'' @ h_name h @ ''\<newline>''))
               # (case h_callback h of None \<Rightarrow> [] | Some f \<Rightarrow> [CallbackCalled f val])
      in if h_name h = ''platform'' then
           (case platform_lookup (h_platforms h) (to_key numstr val) of
              None \<Rightarrow> (c, ev, True)
            | Some platformConf \<Rightarrow>
                (case cli_command c of
                   None \<Rightarrow> (c, ev, False)
                 | Some cur \<Rightarrow>
                     (c\<lparr>cli_command :=
                          Some (update_data (\<lambda>d. d\<lparr>cmd_platform := Some platformConf\<rparr>) cur)\<rparr>,
                      ev, True)))
         else (c, ev, True))"

section \<open>The top-level handler (\<^verbatim>\<open>main.js\<close>)\<close>

text \<open>
  The text handed to \<^verbatim>\<open>console.error\<close>, or \<open>None\<close> when building it throws a
  \<^verbatim>\<open>TypeError\<close>: reading \<^verbatim>\<open>e.before\<close> of \<^verbatim>\<open>null\<close> or \<^verbatim>\<open>undefined\<close>, or calling
  \<^verbatim>\<open>trim\<close> on the stack of a value that has none.
\<close>

fun failure_text :: "runtime \<Rightarrow> failure \<Rightarrow> string option" where
  "failure_text rt Nullish = None"
| "failure_text rt (OtherValue None b a) = None"
| "failure_text rt (OtherValue (Some st) b a) =
     Some ((if truthy_str b then str_or_empty b @ ''\<newline>\<newline>'' else [])
           @ paint rt Red (trim st) @ ''\<newline>''
           @ (if truthy_str a then ''\<newline>'' @ str_or_empty a @ ''\<newline>'' else []))"
| "failure_text rt (TiError m b a) =
     Some ((if truthy_str b then str_or_empty b @ ''\<newline>\<newline>'' else [])
           @ paint rt Red (trim (''Error: '' @ m)) @ ''\<newline>''
           @ (if truthy_str a then ''\<newline>'' @ str_or_empty a @ ''\<newline>'' else []))"

text \<open>
  The \<^verbatim>\<open>catch\<close> block. \<^verbatim>\<open>help()\<close> is the method of the command node, provided by the
  parsing library: it writes the help of the node and ends the process itself, with the code
  \<^verbatim>\<open>process.exitCode || 0\<close>, here the parameter \<open>exitCode\<close>; \<^verbatim>\<open>process.exit(1)\<close> of the last
  line is reached only when there is no node to call it on. A \<^verbatim>\<open>TypeError\<close> thrown in the
  block is caught by nothing.
\<close>

definition top_level_catch :: "runtime \<Rightarrow> nat \<Rightarrow> failure \<Rightarrow> cli \<Rightarrow> cli \<times> event list" where
  "top_level_catch rt exitCode e c =
     (let l1 = snd (bannerEnabled (Some True) (cli_logger c));
          l2 = snd (skipBanner (Some False) l1);
          (l3, out) = banner l2;
          target = (case cli_command c of Some cmd \<Rightarrow> Some cmd | None \<Rightarrow> cli_program c)
      in (c\<lparr>cli_logger := l3\<rparr>,
          map Out out
          @ (case failure_text rt e of
               None \<Rightarrow> [UncaughtTypeError]
             | Some text \<Rightarrow>
                 Out (Write Stderr (text @ ''\<newline>''))
                 # (case target of
                      None \<Rightarrow> [Exit 1]
                    | Some cmd \<Rightarrow> [Help cmd, Exit exitCode]))))"

section \<open>The Dispatcher's parse of switches\<close>

text \<open>
  The parse of a command line against a command node, and the dispatch that follows, are done
  by the \<^verbatim>\<open>CLI\<close> class and the parser it drives, which are not under \<^verbatim>\<open>src/\<close>. The
  definitions of this section follow the words of the spec. A command line is the list of
  the switches it supplies, each with the value that follows it, if any.
\<close>

text \<open>
  Modelled from the spec: the usage error of a failed parse (the error of the parser is not
  under \<^verbatim>\<open>src/\<close>). The spec has "an error condition is raised identifying the offending
  command node".
\<close>

datatype usage_error = UsageError node string

text \<open>
  Modelled from the spec: the lookup of a supplied switch (the parser is not under
  \<^verbatim>\<open>src/\<close>). The root command's rules "include all globally merged flags/options", the spec
  lists \<^verbatim>\<open>--sdk\<close> among the global options, and "a subcommand inherits the parent's global
  options/flags unless explicitly overridden": the node's own switches are searched before the
  global ones, \<open>globals\<close>.
\<close>

definition find_switch :: "cmd_option list \<Rightarrow> node \<Rightarrow> string \<Rightarrow> cmd_option option" where
  "find_switch globals cmd name = find (\<lambda>opt. o_name opt = name) (options_of cmd @ globals)"

text \<open>
  Modelled from the spec: the announcement of a parsed switch (the parser is not under
  \<^verbatim>\<open>src/\<close>). A switch of the node that the command line supplies is announced to the
  listeners of the node as the event \<^verbatim>\<open>option:<name>\<close>, the event the source listens for;
  this is how the synthetic flag "toggles timestamp-prefixed log lines".
\<close>

definition announce :: "node \<Rightarrow> string \<Rightarrow> cli \<Rightarrow> cli" where
  "announce cmd name c =
     (if list_ex (\<lambda>opt. o_name opt = name) (options_of cmd)
      then emit_event cmd (''option:'' @ name) c else c)"

text \<open>
  Modelled from the spec: the parse of the supplied switches (the parser is not under
  \<^verbatim>\<open>src/\<close>). "A flag is boolean-valued", "an option takes a value", "if allowedValues is
  present, supplying a value outside that set is a usage error", and an unknown flag is a
  parse failure. A parsed value is put before the values parsed so far.
\<close>

fun parse_switches ::
  "cmd_option list \<Rightarrow> node \<Rightarrow> (string \<times> string option) list \<Rightarrow> cli \<times> (string \<times> jsval) list
     \<Rightarrow> usage_error + cli \<times> (string \<times> jsval) list" where
  "parse_switches globals cmd [] st = Inr st"
| "parse_switches globals cmd ((name, arg) # rest) (c, vals) =
     (case find_switch globals cmd name of
        None \<Rightarrow> Inl (UsageError cmd (''unknown option --'' @ name))
      | Some opt \<Rightarrow>
          (case (if o_takes_value opt then arg else None) of
             None \<Rightarrow>
               parse_switches globals cmd rest (announce cmd name c, (name, VBool True) # vals)
           | Some v \<Rightarrow>
               (case o_argChoices opt of
                  None \<Rightarrow>
                    parse_switches globals cmd rest (announce cmd name c, (name, VStr v) # vals)
                | Some allowed \<Rightarrow>
                    if VStr v \<in> set allowed
                    then parse_switches globals cmd rest
                           (announce cmd name c, (name, VStr v) # vals)
                    else Inl (UsageError cmd (''invalid choice for --'' @ name)))))"

text \<open>
  Modelled from the spec: the defaults of the known switches (the store of option values is
  not under \<^verbatim>\<open>src/\<close>). "If default is present, the default applies whenever the option is
  omitted."
\<close>

definition defaults_of :: "cmd_option list \<Rightarrow> (string \<times> jsval) list" where
  "defaults_of opts =
     map (\<lambda>opt. (o_name opt, o_defaultValue opt))
       (filter (\<lambda>opt. o_defaultValue opt \<noteq> VUndefined) opts)"

text \<open>
  Modelled from the spec: the parsed values of the Execution Context (built by the \<^verbatim>\<open>CLI\<close>
  class, not under \<^verbatim>\<open>src/\<close>), a "mapping from name to value, with defaults applied for unset
  entries". The list is read with \<open>map_of\<close>: a supplied value stands before the default it
  overrides, and before an earlier value of the same switch.
\<close>

definition parse ::
  "cmd_option list \<Rightarrow> node \<Rightarrow> (string \<times> string option) list \<Rightarrow> cli
     \<Rightarrow> usage_error + cli \<times> (string \<times> jsval) list" where
  "parse globals cmd supplied c =
     parse_switches globals cmd supplied (c, defaults_of (options_of cmd @ globals))"

text \<open>
  Modelled from the spec: the firing of the \<^verbatim>\<open>preAction\<close> hooks of a node (done by the
  parser, not under \<^verbatim>\<open>src/\<close>), in the order of their registration; a hook that throws ends
  the firing. What one hook does is \<open>run_hook\<close>, from the source.
\<close>

fun run_hooks ::
  "(int \<Rightarrow> string) \<Rightarrow> string \<Rightarrow> (string \<times> jsval) list \<Rightarrow> hook list \<Rightarrow> cli
     \<Rightarrow> cli \<times> event list \<times> bool" where
  "run_hooks numstr cmdname vals [] c = (c, [], True)"
| "run_hooks numstr cmdname vals (h # hs) c =
     (case run_hook numstr cmdname vals h c of
        (c1, ev, returned) \<Rightarrow>
          if returned
          then (case run_hooks numstr cmdname vals hs c1 of
                  (c2, ev2, returned2) \<Rightarrow> (c2, ev @ ev2, returned2))
          else (c1, ev, False))"

text \<open>
  Modelled from the spec: the dispatch to a resolved node (the \<^verbatim>\<open>CLI\<close> class is not under
  \<^verbatim>\<open>src/\<close>). "If parsing fails, resolution stops and an error condition is raised";
  otherwise the hooks fire "immediately after argument parsing completes and before the
  command's run behavior executes", and then the run behaviour is invoked (\<open>RunCommand\<close>).
\<close>

definition dispatch ::
  "(int \<Rightarrow> string) \<Rightarrow> cmd_option list \<Rightarrow> node \<Rightarrow> (string \<times> string option) list \<Rightarrow> cli
     \<Rightarrow> usage_error + (cli \<times> (string \<times> jsval) list \<times> event list)" where
  "dispatch numstr globals cmd supplied c =
     (case parse globals cmd supplied c of
        Inl err \<Rightarrow> Inl err
      | Inr (c0, vals) \<Rightarrow>
          (case run_hooks numstr (cmd_name (n_data cmd)) vals (cmd_hooks (n_data cmd)) c0 of
             (c1, ev, returned) \<Rightarrow>
               Inr (c1, vals, if returned then ev @ [RunCommand cmd] else ev)))"

text \<open>Whether an event is the invocation of a run behaviour.\<close>

fun is_run :: "event \<Rightarrow> bool" where
  "is_run (RunCommand cmd) = True"
| "is_run (Out eff) = False"
| "is_run (CallbackCalled f v) = False"
| "is_run (Help cmd) = False"
| "is_run (Exit code) = False"
| "is_run UncaughtTypeError = False"

text \<open>
  Modelled from the spec: whether an outcome of the dispatch, which is not under \<^verbatim>\<open>src/\<close>,
  has "the command's run behavior" invoked.
\<close>

fun run_invoked :: "usage_error + (cli \<times> (string \<times> jsval) list \<times> event list) \<Rightarrow> bool" where
  "run_invoked (Inl err) = False"
| "run_invoked (Inr (c, vals, ev)) = list_ex is_run ev"

text \<open>
  Modelled from the spec: the report of a usage error (the call of the node's
  \<^verbatim>\<open>outputError\<close> by the parser is not under \<^verbatim>\<open>src/\<close>). "On output error, record the
  erroring node as current command and raise a usage failure": on a node that carries the
  \<^verbatim>\<open>outputError\<close> of the Registrar, that handler, from the source, gets the message behind
  the prefix \<^verbatim>\<open>error: \<close>. The handler of any other node is not under \<^verbatim>\<open>src/\<close> (\<open>None\<close>).
\<close>

fun report_usage_error :: "usage_error \<Rightarrow> cli \<Rightarrow> (cli \<times> failure) option" where
  "report_usage_error (UsageError cmd msg) c =
     (if OutputErrorRaises \<in> set (cmd_behaviours (n_data cmd))
      then Some (outputError cmd (''error: '' @ msg) c) else None)"

section \<open>Example descriptors\<close>

text \<open>Decimal digits, for a concrete conversion of numbers.\<close>

fun show_nat :: "nat \<Rightarrow> string" where
  "show_nat n =
     (if n < 10 then [char_of (48 + n)] else show_nat (n div 10) @ [char_of (48 + n mod 10)])"

definition decimal :: "int \<Rightarrow> string" where
  "decimal n = (if n < 0 then ''-'' @ show_nat (nat (- n)) else show_nat (nat n))"

text \<open>
  The global \<^verbatim>\<open>sdk\<close> option as the entry point declares it (\<^verbatim>\<open>abbr: 's'\<close>,
  \<^verbatim>\<open>default: 'latest'\<close>, \<^verbatim>\<open>hint: 'version'\<close>, no list of values), as a switch known to every
  node; its description is shortened.
\<close>

definition global_sdk_Option :: cmd_option where
  "global_sdk_Option =
     \<lparr> o_flags = ''-s, --sdk <version>'',
       o_description = ''Titanium SDK version to use to bootstrap SDK-level commands'',
       o_short = Some ''-s'', o_name = ''sdk'', o_takes_value = True, o_hidden = False,
       o_defaultValue = VStr ''latest'', o_argChoices = None \<rparr>"

text \<open>A descriptor's own \<^verbatim>\<open>sdk\<close> option, with a default and allowed values of its own.\<close>

definition sdk_meta :: meta where
  "sdk_meta = \<lparr> m_abbr = Some ''s'', m_desc = ''the SDK version'', m_hidden = False,
     m_default = VStr ''12.0.0.GA'', m_values = Some [VStr ''12.0.0.GA''], m_callback = None \<rparr>"

definition sdk_flag_meta :: meta where
  "sdk_flag_meta = \<lparr> m_abbr = Some ''s'', m_desc = ''use the SDK'', m_hidden = False,
     m_default = VUndefined, m_values = None, m_callback = None \<rparr>"

definition force_meta :: meta where
  "force_meta = \<lparr> m_abbr = Some ''f'', m_desc = ''force a full rebuild'', m_hidden = False,
     m_default = VUndefined, m_values = None, m_callback = None \<rparr>"

definition timestamp_meta :: meta where
  "timestamp_meta = \<lparr> m_abbr = None, m_desc = ''show timestamps'', m_hidden = False,
     m_default = VUndefined, m_values = None, m_callback = None \<rparr>"

definition log_level_meta :: meta where
  "log_level_meta = \<lparr> m_abbr = None, m_desc = ''minimum logging level'', m_hidden = False,
     m_default = VStr ''info'',
     m_values = Some [VStr ''trace'', VStr ''debug'', VStr ''info'', VStr ''warn'', VStr ''error''],
     m_callback = None \<rparr>"

definition sdk_flag_conf :: conf where
  "sdk_flag_conf = Conf None None [(''sdk'', sdk_flag_meta)] [] None [] None False None"

definition sdk_only_conf :: conf where
  "sdk_only_conf = Conf None None [] [(''sdk'', sdk_meta)] None [] None False None"

definition timestamp_flag_conf :: conf where
  "timestamp_flag_conf = Conf None None [(''timestamp'', timestamp_meta)]
     [(''log-level'', log_level_meta)] None [] None False None"

definition build_conf :: conf where
  "build_conf = Conf (Some ''Build'') None [(''force'', force_meta)]
     [(''sdk'', sdk_meta), (''log-level'', log_level_meta)] None [] None False None"


definition log_level_conf :: conf where
  "log_level_conf = Conf None None [] [(''log-level'', log_level_meta)] None [] None False None"
section \<open>Notions for the properties\<close>

text \<open>
  The options \<open>news\<close> were added one after the other to a node holding \<open>init\<close>, each under
  a name no option before it had.
\<close>

fun added_fresh :: "cmd_option list \<Rightarrow> cmd_option list \<Rightarrow> bool" where
  "added_fresh init [] = True"
| "added_fresh init (x # xs) = (o_name x \<notin> o_name ` set init \<and> added_fresh (init @ [x]) xs)"

text \<open>
  The last occurrence of a switch on a command line: \<open>None\<close> when the command line omits
  it, \<open>Some None\<close> when it stands without a value, \<open>Some (Some v)\<close> when it stands with \<open>v\<close>.
\<close>

definition supplied_value :: "(string \<times> string option) list \<Rightarrow> string \<Rightarrow> string option option" where
  "supplied_value supplied name = map_of (rev supplied) name"

text \<open>The switches a successful call registers for the descriptor, in order.\<close>

definition synthetic_timestamp :: "conf \<Rightarrow> bool" where
  "synthetic_timestamp cf =
     (map_of (c_options cf) ''log-level'' \<noteq> None \<and> map_of (c_options cf) ''timestamp'' = None)"

definition registered_switches :: "conf \<Rightarrow> cmd_option list" where
  "registered_switches cf =
     map (\<lambda>(name, m). flag_Option name m) (c_flags cf)
     @ map (\<lambda>(name, m). option_Option name m)
         (filter (\<lambda>(name, m). name \<noteq> ''sdk'') (c_options cf))
     @ (if synthetic_timestamp cf then [timestamp_Option] else [])"



section \<open>Properties of the Logger\<close>

lemma step_keeps_rendered:
  "p_bannerRendered s \<Longrightarrow> p_bannerRendered (fst (step rt c s))"
  by (cases c)
     (simp_all add: banner_def bannerEnabled_def skipBanner_def timestampEnabled_def
        setBanner_def setLevel_def silence_def Let_def split: option.splits)

lemma banner_renders_Cons:
  "banner_renders ((rt, c) # cs) s =
     (if c = Banner \<and> snd (step rt c s) \<noteq> [] then 1 else 0)
     + banner_renders cs (fst (step rt c s))"
  by (auto simp add: banner_renders_def)

lemma banner_renders_rendered:
  "p_bannerRendered s \<Longrightarrow> banner_renders cs s = 0"
proof (induction cs arbitrary: s)
  case Nil
  then show ?case by (simp add: banner_renders_def)
next
  case (Cons rc cs)
  obtain rt c where rc: "rc = (rt, c)" by (cases rc)
  have quiet: "\<not> (c = Banner \<and> snd (step rt c s) \<noteq> [])"
    using Cons.prems by (cases c) (simp_all add: banner_def)
  have "banner_renders cs (fst (step rt c s)) = 0"
    using Cons.IH Cons.prems step_keeps_rendered by blast
  with quiet show ?case
    unfolding rc banner_renders_Cons by (simp only: if_False)
qed

lemma step_output_rendered:
  "c = Banner \<Longrightarrow> snd (step rt c s) \<noteq> [] \<Longrightarrow> p_bannerRendered (fst (step rt c s))"
  by (simp add: banner_def split: if_splits)

lemma banner_renders_le_1: "banner_renders cs s \<le> 1"
proof (induction cs arbitrary: s)
  case Nil
  then show ?case by (simp add: banner_renders_def)
next
  case (Cons rc cs)
  obtain rt c where rc: "rc = (rt, c)" by (cases rc)
  show ?case
  proof (cases "c = Banner \<and> snd (step rt c s) \<noteq> []")
    case True
    then have "p_bannerRendered (fst (step rt c s))"
      using step_output_rendered by blast
    then have "banner_renders cs (fst (step rt c s)) = 0"
      by (rule banner_renders_rendered)
    then show ?thesis
      unfolding rc banner_renders_Cons using True by simp
  next
    case False
    then show ?thesis
      unfolding rc banner_renders_Cons using Cons.IH [of "fst (step rt c s)"] by auto
  qed
qed

subsection \<open>Levels and the level-agnostic call\<close>

text \<open>
  C1 (the code departs from the claim). The table of levels gives \<open>error\<close> the value 5333,
  not 5, so \<^verbatim>\<open>setLevel('error')\<close> sets the threshold to 5333; \<^verbatim>\<open>log\<close> renders at level 9,
  which is below it, and writes nothing. The methods do not follow the table either:
  \<^verbatim>\<open>error\<close> renders at level 3, \<^verbatim>\<open>info\<close> at 4 and \<^verbatim>\<open>warn\<close> at 5, so with the threshold at
  \<open>warn\<close> an \<^verbatim>\<open>error\<close> line is dropped and an \<^verbatim>\<open>info\<close> line is written. The default threshold
  is the level the table gives \<open>info\<close>.
\<close>

theorem log_hidden_after_setLevel_error:
  "map_of levels ''error'' = Some 5333
   \<and> p_level new_Logger = levels_get ''info''
   \<and> p_level (setLevel ''error'' s) = Num 5333
   \<and> log rt t (setLevel ''error'' s) = []
   \<and> error rt t (setLevel ''warn'' s) = []
   \<and> info rt t (setLevel ''warn'' s) \<noteq> []"
  by (simp add: levels_def levels_get_def new_Logger_def setLevel_def log_def error_def info_def
        render_def)

subsection \<open>Silencing\<close>

text \<open>
  C2 (the code departs from the claim). \<^verbatim>\<open>silence\<close> sets the threshold to 0 and \<^verbatim>\<open>render\<close>
  compares the level with the threshold only, so after \<^verbatim>\<open>silence()\<close> each of
  \<^verbatim>\<open>log\<close>, \<^verbatim>\<open>info\<close>, \<^verbatim>\<open>warn\<close>, \<^verbatim>\<open>error\<close>, \<^verbatim>\<open>trace\<close> and \<^verbatim>\<open>debug\<close> writes its line.
\<close>

theorem silence_suppresses_nothing:
  "log rt t (silence s) \<noteq> [] \<and> info rt t (silence s) \<noteq> [] \<and> warn rt t (silence s) \<noteq> []
   \<and> error rt t (silence s) \<noteq> [] \<and> trace rt t (silence s) \<noteq> []
   \<and> debug rt t (silence s) \<noteq> []
   \<and> log plain_runtime ''x'' (silence new_Logger) = [Write Stdout ''x\<newline>'']"
  by (simp add: silence_def log_def info_def warn_def error_def trace_def debug_def render_def
        new_Logger_def plain_runtime_def)

subsection \<open>The banner\<close>

text \<open>
  C3, as stated, fails: \<^verbatim>\<open>banner()\<close> tests the truthiness of the threshold, not its
  being non-zero.
  After \<^verbatim>\<open>setLevel('verbose')\<close> the threshold is \<^verbatim>\<open>undefined\<close>: bannerEnabled is true,
  skipBanner is false, the threshold is not zero and the banner has not been rendered, and
  \<^verbatim>\<open>banner()\<close> writes nothing.
\<close>

theorem banner_undefined_threshold_counterexample:
  "p_bannerEnabled (setLevel ''verbose'' new_Logger)
   \<and> \<not> p_skipBanner (setLevel ''verbose'' new_Logger)
   \<and> p_level (setLevel ''verbose'' new_Logger) \<noteq> Num 0
   \<and> \<not> p_bannerRendered (setLevel ''verbose'' new_Logger)
   \<and> banner (setLevel ''verbose'' new_Logger) = (setLevel ''verbose'' new_Logger, [])"
  by (simp add: setLevel_def levels_get_def levels_def object_prototype_names_def
        new_Logger_def banner_def)

text \<open>
  C3, amended. \<^verbatim>\<open>banner()\<close> writes the banner text and a line break to standard output and
  emits \<^verbatim>\<open>cli:logger-banner\<close> exactly when bannerEnabled is true, skipBanner is false, the
  threshold is neither zero nor undefined, and the banner has not been rendered; otherwise it
  makes nothing observable. A render sets the rendered flag, and in any sequence of calls of
  the public methods, from any state, at most one \<^verbatim>\<open>banner()\<close> call makes anything
  observable, and none does once the flag is set.
\<close>

theorem banner_at_most_once:
  "(snd (banner s) =
      [Write Stdout (p_banner s), Write Stdout ''\<newline>'', Emit ''cli:logger-banner''])
     = (p_bannerEnabled s \<and> \<not> p_skipBanner s
        \<and> p_level s \<noteq> Num 0 \<and> p_level s \<noteq> Undefined \<and> \<not> p_bannerRendered s)
   \<and> (snd (banner s) = [])
     = (\<not> (p_bannerEnabled s \<and> \<not> p_skipBanner s
           \<and> p_level s \<noteq> Num 0 \<and> p_level s \<noteq> Undefined \<and> \<not> p_bannerRendered s))
   \<and> bannerWasRendered (fst (banner s)) = (snd (banner s) \<noteq> [] \<or> bannerWasRendered s)
   \<and> banner_renders cs s \<le> (if bannerWasRendered s then 0 else 1)"
proof -
  have tl: "truthy_level (p_level s) = (p_level s \<noteq> Num 0 \<and> p_level s \<noteq> Undefined)"
    by (cases "p_level s") simp_all
  have gate: "(snd (banner s) =
      [Write Stdout (p_banner s), Write Stdout ''\<newline>'', Emit ''cli:logger-banner''])
     = (p_bannerEnabled s \<and> \<not> p_skipBanner s
        \<and> p_level s \<noteq> Num 0 \<and> p_level s \<noteq> Undefined \<and> \<not> p_bannerRendered s)"
    by (simp add: banner_def tl)
  have quiet: "(snd (banner s) = [])
     = (\<not> (p_bannerEnabled s \<and> \<not> p_skipBanner s
           \<and> p_level s \<noteq> Num 0 \<and> p_level s \<noteq> Undefined \<and> \<not> p_bannerRendered s))"
    by (simp add: banner_def tl)
  have flag: "bannerWasRendered (fst (banner s)) = (snd (banner s) \<noteq> [] \<or> bannerWasRendered s)"
    by (auto simp add: banner_def bannerWasRendered_def)
  have once: "banner_renders cs s \<le> (if bannerWasRendered s then 0 else 1)"
    using banner_renders_le_1 [of cs s] banner_renders_rendered [of s cs]
    by (simp add: bannerWasRendered_def)
  from gate quiet flag once show ?thesis by blast
qed

theorem banner_at_most_once_witness:
  "snd (banner new_Logger) =
      [Write Stdout (p_banner new_Logger), Write Stdout ''\<newline>'', Emit ''cli:logger-banner'']
   \<and> snd (banner (silence new_Logger)) = []
   \<and> snd (banner (setLevel ''verbose'' new_Logger)) = []
   \<and> bannerWasRendered (fst (banner new_Logger))
   \<and> banner_renders [(plain_runtime, Banner), (plain_runtime, Log ''build''),
        (plain_runtime, BannerEnabled (Some True)), (plain_runtime, SkipBanner (Some False)),
        (plain_runtime, Banner)] new_Logger \<le> 1"
  using banner_at_most_once [of new_Logger
      "[(plain_runtime, Banner), (plain_runtime, Log ''build''),
        (plain_runtime, BannerEnabled (Some True)), (plain_runtime, SkipBanner (Some False)),
        (plain_runtime, Banner)]"]
    banner_at_most_once [of "silence new_Logger" "[]"]
    banner_at_most_once [of "setLevel ''verbose'' new_Logger" "[]"]
  by (simp add: new_Logger_def silence_def bannerWasRendered_def setLevel_def levels_get_def
        levels_def object_prototype_names_def)

subsection \<open>Rendering\<close>

text \<open>
  C4. \<^verbatim>\<open>render(level, stream, message)\<close> writes to the stream if and only if
  \<^verbatim>\<open>level >= threshold\<close> (for a numeric threshold \<open>n\<close>: \<open>n \<le> level\<close>). What it writes is
  the message alone when timestamping is disabled, and the ISO-8601 time of the call followed
  by \<^verbatim>\<open>" - "\<close> and then the message when it is enabled. It makes nothing else observable.
\<close>

theorem render_threshold_and_timestamp:
  "(render rt level out msg s \<noteq> []) = level_ge level (p_level s)
   \<and> level_ge level (Num n) = (n \<le> level)
   \<and> render rt level out msg s =
       map (Write out)
         (if level_ge level (p_level s)
          then (if p_timestampEnabled s then [now rt @ '' - '', msg] else [msg])
          else [])
   \<and> writes_to out (render rt level out msg s) =
         (if level_ge level (p_level s)
          then (if p_timestampEnabled s then [now rt @ '' - '', msg] else [msg])
          else [])"
  by (simp add: render_def)

theorem render_threshold_and_timestamp_witness:
  "render plain_runtime 4 Stderr ''built'' (snd (timestampEnabled (Some True) new_Logger))
     = [Write Stderr ''2024-01-01T00:00:00.000Z - '', Write Stderr ''built'']
   \<and> render plain_runtime 3 Stdout ''built'' new_Logger = [Write Stdout ''built'']
   \<and> render plain_runtime 2 Stdout ''built'' new_Logger = []"
  using render_threshold_and_timestamp
      [of plain_runtime 4 Stderr "''built''" "snd (timestampEnabled (Some True) new_Logger)" 0]
    render_threshold_and_timestamp [of plain_runtime 3 Stdout "''built''" new_Logger 0]
    render_threshold_and_timestamp [of plain_runtime 2 Stdout "''built''" new_Logger 0]
  by (simp add: new_Logger_def timestampEnabled_def plain_runtime_def)

subsection \<open>Streams per level\<close>

text \<open>
  C10. \<^verbatim>\<open>error()\<close> writes to standard error and never to standard output;
  \<^verbatim>\<open>log()\<close>, \<^verbatim>\<open>trace()\<close>, \<^verbatim>\<open>debug()\<close>, \<^verbatim>\<open>info()\<close> and \<^verbatim>\<open>warn()\<close> write to standard output and
  never to standard error. With the threshold at \<open>trace\<close> each of them writes its line.
\<close>

theorem streams_per_level:
  "writes_to Stdout (error rt t s) = []
   \<and> writes_to Stderr (log rt t s) = [] \<and> writes_to Stderr (trace rt t s) = []
   \<and> writes_to Stderr (debug rt t s) = [] \<and> writes_to Stderr (info rt t s) = []
   \<and> writes_to Stderr (warn rt t s) = []
   \<and> error rt t (setLevel ''trace'' new_Logger)
        = [Write Stderr (paint rt Red (''[ERROR] '' @ t) @ ''\<newline>'')]
   \<and> log rt t (setLevel ''trace'' new_Logger) = [Write Stdout (t @ ''\<newline>'')]
   \<and> trace rt t (setLevel ''trace'' new_Logger)
        = [Write Stdout (paint rt Gray ''[TRACE]'' @ '' '' @ t @ ''\<newline>'')]
   \<and> debug rt t (setLevel ''trace'' new_Logger)
        = [Write Stdout (paint rt Magenta ''[DEBUG]'' @ '' '' @ t @ ''\<newline>'')]
   \<and> info rt t (setLevel ''trace'' new_Logger)
        = [Write Stdout (paint rt Green ''[INFO]'' @ ''  '' @ t @ ''\<newline>'')]
   \<and> warn rt t (setLevel ''trace'' new_Logger)
        = [Write Stdout (paint rt Yellow (''[WARN]  '' @ t) @ ''\<newline>'')]"
  by (simp add: error_def log_def trace_def debug_def info_def warn_def render_def
        setLevel_def levels_get_def levels_def new_Logger_def)

theorem streams_per_level_witness:
  "error plain_runtime ''no SDK'' new_Logger = [Write Stderr ''[ERROR] no SDK\<newline>'']
   \<and> writes_to Stdout (error plain_runtime ''no SDK'' new_Logger) = []
   \<and> writes_to Stderr (warn plain_runtime ''old SDK'' new_Logger) = []
   \<and> warn plain_runtime ''old SDK'' new_Logger = [Write Stdout ''[WARN]  old SDK\<newline>'']"
  using streams_per_level [of plain_runtime "''no SDK''" new_Logger]
    streams_per_level [of plain_runtime "''old SDK''" new_Logger]
  by (simp add: error_def warn_def render_def new_Logger_def plain_runtime_def)

section \<open>Properties of the Registrar\<close>

subsection \<open>What each phase leaves on the node\<close>

lemma and_then_Inr: "and_then r f = Inr y \<longleftrightarrow> (\<exists>x. r = Inr x \<and> f x = Inr y)"
  by (cases r) (simp_all add: and_then_def)

lemma and_then_simps: "and_then (Inl err) f = Inl err" "and_then (Inr x) f = f x"
  by (simp_all add: and_then_def)

lemma addOption_Inr:
  assumes "addOption opt cmd = Inr cmd'"
  shows "n_data cmd' = (n_data cmd)\<lparr>cmd_options := options_of cmd @ [opt]\<rparr>"
    and "o_name opt \<notin> o_name ` set (options_of cmd)"
proof -
  have none: "conflicting_flag (options_of cmd) opt = None"
    using assms by (simp add: addOption_def split: option.splits)
  show "n_data cmd' = (n_data cmd)\<lparr>cmd_options := options_of cmd @ [opt]\<rparr>"
    using assms none by (auto simp add: addOption_def update_data_def)
  show "o_name opt \<notin> o_name ` set (options_of cmd)"
  proof
    assume "o_name opt \<in> o_name ` set (options_of cmd)"
    then obtain e where e: "e \<in> set (options_of cmd)" "o_name e = o_name opt" by auto
    then have "is_flag e (long_flag opt)" by (simp add: is_flag_def long_flag_def)
    with e(1) have "list_ex (\<lambda>x. is_flag x (long_flag opt)) (options_of cmd)"
      by (auto simp add: list_ex_iff)
    then show False using none by (simp add: conflicting_flag_def)
  qed
qed

lemma added_fresh_append:
  "added_fresh init (xs @ ys) = (added_fresh init xs \<and> added_fresh (init @ xs) ys)"
  by (induction xs arbitrary: init) auto

lemma added_fresh_snoc:
  "added_fresh init xs \<Longrightarrow> o_name x \<notin> o_name ` set (init @ xs) \<Longrightarrow> added_fresh init (xs @ [x])"
  by (simp add: added_fresh_append)

lemma apply_flags_Inr:
  "apply_flags cmdName fs st = Inr st' \<Longrightarrow>
     n_data (snd st')
       = (n_data (snd st))\<lparr>cmd_options :=
            options_of (snd st) @ map (\<lambda>(name, m). flag_Option name m) fs\<rparr>
   \<and> added_fresh (options_of (snd st)) (map (\<lambda>(name, m). flag_Option name m) fs)"
proof (induction fs arbitrary: st)
  case Nil
  then show ?case by simp
next
  case (Cons f fs)
  obtain name m where f: "f = (name, m)" by (cases f)
  obtain c cmd where st: "st = (c, cmd)" by (cases st)
  obtain cmd' where add: "addOption (flag_Option name m) cmd = Inr cmd'"
    and rest: "apply_flags cmdName fs
        (debugTrace (''Adding \"'' @ cmdName @ ''\" flag: '' @ abbr_prefix m @ ''--'' @ name) c,
         cmd') = Inr st'"
    using Cons.prems unfolding f st by (auto split: sum.splits)
  note a = addOption_Inr [OF add]
  from Cons.IH [OF rest] a show ?case unfolding f st by simp
qed

lemma apply_options_Inr:
  "apply_options cf cmdName os st = Inr st' \<Longrightarrow>
     options_of (snd st')
       = options_of (snd st)
         @ map (\<lambda>(name, m). option_Option name m) (filter (\<lambda>(name, m). name \<noteq> ''sdk'') os)
   \<and> added_fresh (options_of (snd st))
         (map (\<lambda>(name, m). option_Option name m) (filter (\<lambda>(name, m). name \<noteq> ''sdk'') os))
   \<and> cmd_listeners (n_data (snd st')) = cmd_listeners (n_data (snd st))
   \<and> cmd_behaviours (n_data (snd st')) = cmd_behaviours (n_data (snd st))"
proof (induction os arbitrary: st)
  case Nil
  then show ?case by simp
next
  case (Cons x os)
  obtain name m where x: "x = (name, m)" by (cases x)
  obtain c cmd where st: "st = (c, cmd)" by (cases st)
  show ?case
  proof (cases "name = ''sdk''")
    case True
    then have "apply_options cf cmdName os
        (debugTrace (''Skipping \"'' @ cmdName @ ''\" option: --'' @ name) c, cmd) = Inr st'"
      using Cons.prems unfolding x st by simp
    from Cons.IH [OF this] True show ?thesis unfolding x st by simp
  next
    case False
    then obtain cmd' where add: "addOption (option_Option name m) cmd = Inr cmd'"
      and rest: "apply_options cf cmdName os
        (debugTrace (''Adding \"'' @ cmdName @ ''\" option: '' @ abbr_prefix m @ ''--''
                       @ name @ '' [value]'') c,
         (if m_callback m \<noteq> None \<or> name = ''platform''
          then addHook (option_hook cf name m) cmd' else cmd')) = Inr st'"
      using Cons.prems unfolding x st by (auto split: sum.splits)
    define cmd2 where "cmd2 = (if m_callback m \<noteq> None \<or> name = ''platform''
          then addHook (option_hook cf name m) cmd' else cmd')"
    note a = addOption_Inr [OF add]
    have k: "options_of cmd2 = options_of cmd @ [option_Option name m]"
      "cmd_listeners (n_data cmd2) = cmd_listeners (n_data cmd)"
      "cmd_behaviours (n_data cmd2) = cmd_behaviours (n_data cmd)"
      using a(1) by (simp_all add: cmd2_def addHook_def update_data_def)
    from Cons.IH [OF rest [folded cmd2_def]] a(2) False k show ?thesis
      unfolding x st by simp
  qed
qed

lemma debugLog_apply_options:
  "apply_options cf cmdName os st = Inr st' \<Longrightarrow>
   cli_debugLog (fst st')
     = cli_debugLog (fst st)
       @ map (\<lambda>(name, m).
                if name = ''sdk'' then ''Skipping \"'' @ cmdName @ ''\" option: --'' @ name
                else ''Adding \"'' @ cmdName @ ''\" option: '' @ abbr_prefix m @ ''--'' @ name
                       @ '' [value]'') os"
proof (induction os arbitrary: st)
  case Nil
  then show ?case by simp
next
  case (Cons x os)
  obtain name m where x: "x = (name, m)" by (cases x)
  obtain c cmd where st: "st = (c, cmd)" by (cases st)
  show ?case using Cons.prems Cons.IH unfolding x st
    by (auto simp add: debugTrace_def split: sum.splits if_splits)
qed

lemma apply_timestamp_Inr:
  "apply_timestamp cf cmdName st = Inr st' \<Longrightarrow>
     options_of (snd st')
       = options_of (snd st) @ (if synthetic_timestamp cf then [timestamp_Option] else [])
   \<and> added_fresh (options_of (snd st))
         (if synthetic_timestamp cf then [timestamp_Option] else [])
   \<and> cmd_listeners (n_data (snd st'))
       = cmd_listeners (n_data (snd st))
         @ (if synthetic_timestamp cf
            then [(''option:timestamp'', EnableTimestampWhenReady)] else [])
   \<and> cmd_behaviours (n_data (snd st')) = cmd_behaviours (n_data (snd st))"
proof (cases "synthetic_timestamp cf")
  case True
  assume r: "apply_timestamp cf cmdName st = Inr st'"
  then obtain cmd' where add: "addOption timestamp_Option (snd st) = Inr cmd'"
    and st': "st' = (debugTrace (''Adding \"'' @ cmdName @ ''\" option: --timestamp'') (fst st),
                     addListener ''option:timestamp'' EnableTimestampWhenReady cmd')"
    using True by (auto simp add: apply_timestamp_def synthetic_timestamp_def split: sum.splits)
  note a = addOption_Inr [OF add]
  show ?thesis using True a unfolding st' by (simp add: addListener_def update_data_def)
next
  case False
  assume "apply_timestamp cf cmdName st = Inr st'"
  then have "st' = st" using False
    by (auto simp add: apply_timestamp_def synthetic_timestamp_def)
  then show ?thesis using False by simp
qed

lemma addArgument_Inr:
  "addArgument arg cmd = Inr cmd' \<Longrightarrow>
   n_data cmd' = (n_data cmd)\<lparr>cmd_args := cmd_args (n_data cmd) @ [arg]\<rparr>"
  by (auto simp add: addArgument_def update_data_def split: if_splits)

lemma apply_args_Inr:
  "apply_args cmdName as st = Inr st' \<Longrightarrow>
     options_of (snd st') = options_of (snd st)
   \<and> cmd_listeners (n_data (snd st')) = cmd_listeners (n_data (snd st))
   \<and> cmd_behaviours (n_data (snd st')) = cmd_behaviours (n_data (snd st))"
proof (induction as arbitrary: st)
  case Nil
  then show ?case by simp
next
  case (Cons a as)
  obtain c cmd where st: "st = (c, cmd)" by (cases st)
  obtain cmd' where add: "addArgument (new_Argument a) cmd = Inr cmd'"
    and rest: "apply_args cmdName as
        (debugTrace (''Adding \"'' @ cmdName @ ''\" arg: '' @ arg_fmt a) c, cmd') = Inr st'"
    using Cons.prems unfolding st by (auto split: sum.splits)
  from Cons.IH [OF rest] addArgument_Inr [OF add] show ?case unfolding st by simp
qed

lemma addCommand_Inr: "addCommand sub d h cmd = Inr cmd' \<Longrightarrow> n_data cmd' = n_data cmd"
  by (auto simp add: addCommand_def split: if_splits option.splits)

lemma apply_subcommands_Inr:
  "apply_subcommands ac width cf cmdName subs st = Inr st' \<Longrightarrow> n_data (snd st') = n_data (snd st)"
proof (induction subs arbitrary: st)
  case Nil
  then show ?case by simp
next
  case (Cons x subs)
  obtain name subconf where x: "x = (name, subconf)" by (cases x)
  obtain c cmd where st: "st = (c, cmd)" by (cases st)
  obtain c2 cmd' where rest: "apply_subcommands ac width cf cmdName subs (c2, cmd') = Inr st'"
    and keep: "n_data cmd' = n_data cmd"
    using Cons.prems unfolding x st
    by (auto split: sum.splits prod.splits dest: addCommand_Inr)
  from Cons.IH [OF rest] keep show ?case unfolding st by simp
qed

lemma set_alias_Inr:
  "set_alias a cmd = Inr cmd' \<Longrightarrow>
     options_of cmd' = options_of cmd
   \<and> cmd_listeners (n_data cmd') = cmd_listeners (n_data cmd)
   \<and> cmd_behaviours (n_data cmd') = cmd_behaviours (n_data cmd)"
  by (auto simp add: set_alias_def update_data_def split: if_splits)

lemma applyCommandConfig_Inr:
  assumes "applyCommandConfig ac width c cmdName cmd cf = Inr (c', res)"
  shows "options_of res = options_of cmd @ registered_switches cf"
    and "added_fresh (options_of cmd) (registered_switches cf)"
    and "cmd_listeners (n_data res)
           = cmd_listeners (n_data cmd)
             @ (if synthetic_timestamp cf
                then [(''option:timestamp'', EnableTimestampWhenReady)] else [])"
    and "cmd_behaviours (n_data res) = cmd_behaviours (n_data cmd)"
proof -
  define cmd1 where "cmd1 = (if truthy_str (c_title cf)
                  then update_data (\<lambda>d. d\<lparr>cmd_title := c_title cf\<rparr>) cmd else cmd)"
  obtain cmd2 st3 st4 st5 st6 where
    al: "(if truthy_str (c_alias cf) then set_alias (str_or_empty (c_alias cf)) cmd1
          else Inr cmd1) = Inr cmd2"
    and fl: "apply_flags cmdName (c_flags cf) (c, cmd2) = Inr st3"
    and op: "apply_options cf cmdName (c_options cf) st3 = Inr st4"
    and ts: "apply_timestamp cf cmdName st4 = Inr st5"
    and ar: "(case c_args cf of None \<Rightarrow> Inr st5 | Some as \<Rightarrow> apply_args cmdName as st5) = Inr st6"
    and su: "apply_subcommands ac width cf cmdName (c_subcommands cf) st6 = Inr (c', res)"
    using assms unfolding applyCommandConfig_def Let_def cmd1_def [symmetric] and_then_Inr
    by blast
  have d1: "options_of cmd1 = options_of cmd"
    "cmd_listeners (n_data cmd1) = cmd_listeners (n_data cmd)"
    "cmd_behaviours (n_data cmd1) = cmd_behaviours (n_data cmd)"
    by (simp_all add: cmd1_def update_data_def)
  have d2: "options_of cmd2 = options_of cmd"
    "cmd_listeners (n_data cmd2) = cmd_listeners (n_data cmd)"
    "cmd_behaviours (n_data cmd2) = cmd_behaviours (n_data cmd)"
    using al d1 set_alias_Inr [of "str_or_empty (c_alias cf)" cmd1 cmd2]
    by (auto split: if_splits)
  note f = apply_flags_Inr [OF fl]
  note p = apply_options_Inr [OF op]
  note t = apply_timestamp_Inr [OF ts]
  have a: "options_of (snd st6) = options_of (snd st5)"
    "cmd_listeners (n_data (snd st6)) = cmd_listeners (n_data (snd st5))"
    "cmd_behaviours (n_data (snd st6)) = cmd_behaviours (n_data (snd st5))"
    using ar apply_args_Inr [of cmdName _ st5 st6] by (auto split: option.splits)
  have s: "n_data res = n_data (snd st6)"
    using apply_subcommands_Inr [OF su] by simp
  have o3: "options_of (snd st3)
      = options_of cmd @ map (\<lambda>(name, m). flag_Option name m) (c_flags cf)"
    using f d2 by simp
  show "options_of res = options_of cmd @ registered_switches cf"
    using s a p t o3 by (simp add: registered_switches_def)
  show "added_fresh (options_of cmd) (registered_switches cf)"
    using f p t o3 d2 by (simp add: registered_switches_def added_fresh_append)
  show "cmd_listeners (n_data res)
           = cmd_listeners (n_data cmd)
             @ (if synthetic_timestamp cf
                then [(''option:timestamp'', EnableTimestampWhenReady)] else [])"
    using s a p t f d2 by simp
  show "cmd_behaviours (n_data res) = cmd_behaviours (n_data cmd)"
    using s a p t f d2 by simp
qed

subsection \<open>The listener of the synthetic flag\<close>

lemma ready_fire_listener: "cli_ready (fire_listener l c) = cli_ready c"
  by (cases l) simp

lemma fire_listener_not_ready: "\<not> cli_ready c \<Longrightarrow> fire_listener l c = c"
  by (cases l) simp

lemma fold_fire_not_ready: "\<not> cli_ready c \<Longrightarrow> fold fire_listener ls c = c"
  by (induction ls arbitrary: c) (simp_all add: fire_listener_not_ready)

lemma fold_fire_keeps_ready: "cli_ready (fold fire_listener ls c) = cli_ready c"
  by (induction ls arbitrary: c) (simp_all add: ready_fire_listener)

lemma fold_fire_keeps_enabled:
  "p_timestampEnabled (cli_logger c) \<Longrightarrow> p_timestampEnabled (cli_logger (fold fire_listener ls c))"
proof (induction ls arbitrary: c)
  case Nil
  then show ?case by simp
next
  case (Cons l ls)
  have "p_timestampEnabled (cli_logger (fire_listener l c))"
    using Cons.prems by (cases l) (simp add: timestampEnabled_def)
  then show ?case using Cons.IH by simp
qed

lemma fold_fire_ready:
  "cli_ready c \<Longrightarrow> ls \<noteq> [] \<Longrightarrow> p_timestampEnabled (cli_logger (fold fire_listener ls c))"
proof (cases ls)
  case Nil
  assume "ls \<noteq> []" with Nil show ?thesis by simp
next
  case (Cons l ls')
  assume "cli_ready c"
  then have "p_timestampEnabled (cli_logger (fire_listener l c))"
    by (cases l) (simp add: timestampEnabled_def)
  then show ?thesis unfolding Cons by (simp add: fold_fire_keeps_enabled)
qed

lemma level_fire_listener: "p_level (cli_logger (fire_listener l c)) = p_level (cli_logger c)"
  by (cases l) (simp add: timestampEnabled_def)

lemma fold_fire_level: "p_level (cli_logger (fold fire_listener ls c)) = p_level (cli_logger c)"
  by (induction ls arbitrary: c) (simp_all add: level_fire_listener)

lemma announce_not_ready: "\<not> cli_ready c \<Longrightarrow> announce cmd name c = c"
  by (simp add: announce_def emit_event_def fold_fire_not_ready)

lemma announce_keeps:
  "cli_ready (announce cmd name c) = cli_ready c"
  "p_level (cli_logger (announce cmd name c)) = p_level (cli_logger c)"
  "p_timestampEnabled (cli_logger c) \<Longrightarrow> p_timestampEnabled (cli_logger (announce cmd name c))"
  by (simp_all add: announce_def emit_event_def fold_fire_keeps_ready fold_fire_level
        fold_fire_keeps_enabled)

lemma parse_switches_step:
  assumes "parse_switches globals cmd ((name, arg) # rest) (c, vals) = Inr st'"
  obtains w where "parse_switches globals cmd rest (announce cmd name c, (name, w) # vals) = Inr st'"
  using assms by (auto split: option.splits if_splits)

lemma parse_switches_not_ready:
  "parse_switches globals cmd supplied (c, vals) = Inr (c', vals') \<Longrightarrow> \<not> cli_ready c \<Longrightarrow> c' = c"
proof (induction supplied arbitrary: c vals)
  case Nil
  then show ?case by simp
next
  case (Cons x supplied)
  obtain name arg where x: "x = (name, arg)" by (cases x)
  from Cons.prems(1) [unfolded x] obtain w where
    step: "parse_switches globals cmd supplied (announce cmd name c, (name, w) # vals)
             = Inr (c', vals')"
    by (rule parse_switches_step)
  have same: "announce cmd name c = c" using Cons.prems(2) by (rule announce_not_ready)
  from Cons.IH [OF step [unfolded same] Cons.prems(2)] show ?case .
qed

lemma parse_switches_level:
  "parse_switches globals cmd supplied (c, vals) = Inr (c', vals') \<Longrightarrow>
   p_level (cli_logger c') = p_level (cli_logger c)"
proof (induction supplied arbitrary: c vals)
  case Nil
  then show ?case by simp
next
  case (Cons x supplied)
  obtain name arg where x: "x = (name, arg)" by (cases x)
  from Cons.prems(1) [unfolded x] obtain w where
    step: "parse_switches globals cmd supplied (announce cmd name c, (name, w) # vals)
             = Inr (c', vals')"
    by (rule parse_switches_step)
  from Cons.IH [OF step] show ?case by (simp add: announce_keeps)
qed

lemma parse_switches_enables:
  assumes own: "list_ex (\<lambda>opt. o_name opt = ev) (options_of cmd)"
    and lst: "(''option:'' @ ev, EnableTimestampWhenReady) \<in> set (cmd_listeners (n_data cmd))"
  shows "parse_switches globals cmd supplied (c, vals) = Inr (c', vals') \<Longrightarrow> cli_ready c \<Longrightarrow>
         p_timestampEnabled (cli_logger c) \<or> ev \<in> fst ` set supplied \<Longrightarrow>
         p_timestampEnabled (cli_logger c')"
proof (induction supplied arbitrary: c vals)
  case Nil
  then show ?case by simp
next
  case (Cons x supplied)
  obtain name arg where x: "x = (name, arg)" by (cases x)
  from Cons.prems(1) [unfolded x] obtain w where
    step: "parse_switches globals cmd supplied (announce cmd name c, (name, w) # vals)
             = Inr (c', vals')"
    by (rule parse_switches_step)
  have rdy: "cli_ready (announce cmd name c)" using Cons.prems(2) by (simp add: announce_keeps)
  have "p_timestampEnabled (cli_logger (announce cmd name c)) \<or> ev \<in> fst ` set supplied"
  proof (cases "name = ev")
    case True
    have "map snd (filter (\<lambda>(e, l). e = ''option:'' @ ev) (cmd_listeners (n_data cmd))) \<noteq> []"
      using lst by (auto simp add: filter_empty_conv)
    then have "p_timestampEnabled (cli_logger (announce cmd name c))"
      using own Cons.prems(2) unfolding True announce_def emit_event_def
      by (simp add: fold_fire_ready)
    then show ?thesis by simp
  next
    case False
    then show ?thesis using Cons.prems(3) x by (auto simp add: announce_keeps)
  qed
  from Cons.IH [OF step rdy this] show ?case .
qed

subsection \<open>The reserved name \<^verbatim>\<open>sdk\<close>\<close>

text \<open>
  C5 fails on the code. The loop over the \<^verbatim>\<open>options\<close> map skips the entry named \<^verbatim>\<open>sdk\<close>
  and leaves a trace note; the loop over the \<^verbatim>\<open>flags\<close> map has no such test. For the
  descriptor \<^verbatim>\<open>{flags: {sdk: {abbr: 's', desc: 'use the SDK'}}}\<close> the call registers the
  switch \<^verbatim>\<open>-s, --sdk\<close> on the node and notes that it added it, where the same name in the
  \<^verbatim>\<open>options\<close> map is skipped.
\<close>

theorem sdk_flag_registered:
  "(case applyCommandConfig (applyConfig 80) 80 new_cli ''build'' (new_Command ''build'')
           sdk_flag_conf of
      Inl err \<Rightarrow> False
    | Inr (c', node) \<Rightarrow>
        map o_flags (options_of node) = [''-s, --sdk'']
        \<and> map o_name (options_of node) = [''sdk'']
        \<and> cli_debugLog c' = [''Adding \"build\" flag: -s, --sdk''])
   \<and> (case applyCommandConfig (applyConfig 80) 80 new_cli ''build'' (new_Command ''build'')
           sdk_only_conf of
      Inl err \<Rightarrow> False
    | Inr (c', node) \<Rightarrow>
        options_of node = []
        \<and> cli_debugLog c' = [''Skipping \"build\" option: --sdk''])"
  by (simp add: applyCommandConfig_def and_then_def apply_timestamp_def new_Command_def
      new_cli_def addOption_def conflicting_flag_def update_data_def flag_Option_def
      abbr_prefix_def short_flag_def sdk_flag_conf_def sdk_only_conf_def sdk_flag_meta_def
      sdk_meta_def debugTrace_def)

subsection \<open>The synthetic \<^verbatim>\<open>--timestamp\<close> flag\<close>

text \<open>
  C8, as stated, fails: the test for the synthetic flag reads the \<^verbatim>\<open>options\<close> map only. A
  descriptor with a \<^verbatim>\<open>log-level\<close> option, no \<^verbatim>\<open>timestamp\<close> option and a \<^verbatim>\<open>timestamp\<close> flag
  has \<^verbatim>\<open>--timestamp\<close> registered by the loop over the flags and asked for again as the
  synthetic flag, which the node refuses: the call throws and registers no synthetic flag.
\<close>

theorem synthetic_timestamp_refused_counterexample:
  "map_of (c_options timestamp_flag_conf) ''log-level'' = Some log_level_meta
   \<and> map_of (c_options timestamp_flag_conf) ''timestamp'' = None
   \<and> applyCommandConfig (applyConfig 80) 80 new_cli ''build'' (new_Command ''build'')
        timestamp_flag_conf
      = Inl (ConflictingFlag ''--timestamp'' ''--timestamp'')"
  by (simp add: applyCommandConfig_def and_then_def apply_timestamp_def new_Command_def
      new_cli_def addOption_def conflicting_flag_def is_flag_def long_flag_def update_data_def
      flag_Option_def option_Option_def timestamp_Option_def abbr_prefix_def short_flag_def
      timestamp_flag_conf_def timestamp_meta_def log_level_meta_def debugTrace_def)

text \<open>
  C8, amended. Whenever the call of the Registrar succeeds, the switches of the node are the
  ones it had, then one flag for every entry of the \<^verbatim>\<open>flags\<close> map, then one option for
  every entry of the \<^verbatim>\<open>options\<close> map but \<^verbatim>\<open>sdk\<close>, and then, exactly when the \<^verbatim>\<open>options\<close>
  map has a \<^verbatim>\<open>log-level\<close> entry and no \<^verbatim>\<open>timestamp\<close> entry, the boolean flag
  \<^verbatim>\<open>--timestamp\<close>, with a listener of its event \<^verbatim>\<open>option:timestamp\<close>; in every other case
  neither the flag nor the listener is added. When the synthetic flag was added, the event
  on a ready CLI enables timestamping, and so does a parse of a command line that supplies
  \<^verbatim>\<open>--timestamp\<close>: every line \<^verbatim>\<open>render\<close> writes afterwards is prefixed with the time. On a
  CLI that is not ready the event and the parse leave the CLI as it was.
\<close>

theorem synthetic_timestamp_flag:
  assumes "applyCommandConfig ac width c cmdName cmd cf = Inr (c1, res)"
  shows "options_of res
       = options_of cmd
         @ map (\<lambda>(name, m). flag_Option name m) (c_flags cf)
         @ map (\<lambda>(name, m). option_Option name m)
             (filter (\<lambda>(name, m). name \<noteq> ''sdk'') (c_options cf))
         @ (if synthetic_timestamp cf then [timestamp_Option] else [])
   \<and> cmd_listeners (n_data res)
       = cmd_listeners (n_data cmd)
         @ (if synthetic_timestamp cf
            then [(''option:timestamp'', EnableTimestampWhenReady)] else [])
   \<and> o_flags timestamp_Option = ''--timestamp'' \<and> \<not> o_takes_value timestamp_Option
   \<and> (synthetic_timestamp cf \<and> cli_ready c'
        \<longrightarrow> p_timestampEnabled (cli_logger (emit_event res ''option:timestamp'' c')))
   \<and> (synthetic_timestamp cf \<and> cli_ready c' \<and> ''timestamp'' \<in> fst ` set supplied
        \<and> parse globals res supplied c' = Inr (c2, vals)
        \<longrightarrow> p_timestampEnabled (cli_logger c2)
            \<and> render rt level out msg (cli_logger c2)
                = (if level_ge level (p_level (cli_logger c'))
                   then [Write out (now rt @ '' - ''), Write out msg] else []))
   \<and> (\<not> cli_ready c' \<longrightarrow> emit_event res ''option:timestamp'' c' = c')
   \<and> (\<not> cli_ready c' \<and> parse globals res supplied c' = Inr (c2, vals) \<longrightarrow> c2 = c')"
proof -
  note r = applyCommandConfig_Inr [OF assms]
  have opts: "options_of res
       = options_of cmd
         @ map (\<lambda>(name, m). flag_Option name m) (c_flags cf)
         @ map (\<lambda>(name, m). option_Option name m)
             (filter (\<lambda>(name, m). name \<noteq> ''sdk'') (c_options cf))
         @ (if synthetic_timestamp cf then [timestamp_Option] else [])"
    using r(1) by (simp add: registered_switches_def)
  have shape: "o_flags timestamp_Option = ''--timestamp'' \<and> \<not> o_takes_value timestamp_Option"
    by (simp add: timestamp_Option_def)
  have own: "list_ex (\<lambda>opt. o_name opt = ''timestamp'') (options_of res)"
    if "synthetic_timestamp cf"
    using that unfolding opts by (simp add: timestamp_Option_def)
  have lst: "(''option:'' @ ''timestamp'', EnableTimestampWhenReady)
               \<in> set (cmd_listeners (n_data res))"
    if "synthetic_timestamp cf"
    using that unfolding r(3) by simp
  have fired: "p_timestampEnabled (cli_logger (emit_event res ''option:timestamp'' c'))"
    if "synthetic_timestamp cf" "cli_ready c'"
  proof -
    have "map snd (filter (\<lambda>(e, l). e = ''option:timestamp'') (cmd_listeners (n_data res))) \<noteq> []"
      using that(1) by (simp add: r(3))
    with that(2) show ?thesis unfolding emit_event_def by (rule fold_fire_ready)
  qed
  have parsed: "p_timestampEnabled (cli_logger c2)
            \<and> render rt level out msg (cli_logger c2)
                = (if level_ge level (p_level (cli_logger c'))
                   then [Write out (now rt @ '' - ''), Write out msg] else [])"
    if "synthetic_timestamp cf" "cli_ready c'" "''timestamp'' \<in> fst ` set supplied"
      "parse globals res supplied c' = Inr (c2, vals)"
  proof -
    have en: "p_timestampEnabled (cli_logger c2)"
      using parse_switches_enables [OF own [OF that(1)] lst [OF that(1)]
          that(4) [unfolded parse_def] that(2)] that(3) by simp
    have lv: "p_level (cli_logger c2) = p_level (cli_logger c')"
      using that(4) unfolding parse_def by (rule parse_switches_level)
    show ?thesis using en lv by (simp add: render_def)
  qed
  have idle: "emit_event res ''option:timestamp'' c' = c'" if "\<not> cli_ready c'"
    unfolding emit_event_def using that by (rule fold_fire_not_ready)
  have idle_parse: "c2 = c'"
    if "\<not> cli_ready c'" "parse globals res supplied c' = Inr (c2, vals)"
    using that(2) [unfolded parse_def] that(1) by (rule parse_switches_not_ready)
  from opts r(3) shape fired parsed idle idle_parse show ?thesis by blast
qed

theorem synthetic_timestamp_flag_witness:
  "(case applyCommandConfig (applyConfig 80) 80 new_cli ''build'' (new_Command ''build'')
           log_level_conf of
      Inl err \<Rightarrow> False
    | Inr (c1, res) \<Rightarrow>
        options_of res = [option_Option ''log-level'' log_level_meta, timestamp_Option]
        \<and> cmd_listeners (n_data res) = [(''option:timestamp'', EnableTimestampWhenReady)]
        \<and> (case parse [global_sdk_Option] res [(''timestamp'', None)]
                   (new_cli\<lparr>cli_ready := True\<rparr>) of
              Inl err \<Rightarrow> False
            | Inr (c2, vals) \<Rightarrow>
                map_of vals ''timestamp'' = Some (VBool True)
                \<and> render plain_runtime 3 Stdout ''built'' (cli_logger c2)
                    = [Write Stdout ''2024-01-01T00:00:00.000Z - '', Write Stdout ''built''])
        \<and> (case parse [global_sdk_Option] res [(''timestamp'', None)] new_cli of
              Inl err \<Rightarrow> False
            | Inr (c2, vals) \<Rightarrow> c2 = new_cli))
   \<and> (case applyCommandConfig (applyConfig 80) 80 new_cli ''build'' (new_Command ''build'')
           build_conf of
      Inl err \<Rightarrow> False
    | Inr (c1, res) \<Rightarrow>
        options_of res = [flag_Option ''force'' force_meta,
                          option_Option ''log-level'' log_level_meta, timestamp_Option])
   \<and> (case applyCommandConfig (applyConfig 80) 80 new_cli ''build'' (new_Command ''build'')
           sdk_only_conf of
      Inl err \<Rightarrow> False
    | Inr (c1, res) \<Rightarrow> options_of res = [] \<and> cmd_listeners (n_data res) = [])"
proof -
  obtain c1 res where reg: "applyCommandConfig (applyConfig 80) 80 new_cli ''build''
      (new_Command ''build'') log_level_conf = Inr (c1, res)"
    by (simp add: applyCommandConfig_def and_then_def apply_timestamp_def new_Command_def
      new_cli_def addOption_def conflicting_flag_def is_flag_def long_flag_def update_data_def
      option_Option_def timestamp_Option_def abbr_prefix_def short_flag_def
      log_level_conf_def log_level_meta_def debugTrace_def)
  obtain c3 res3 where reg3: "applyCommandConfig (applyConfig 80) 80 new_cli ''build''
      (new_Command ''build'') build_conf = Inr (c3, res3)"
    by (simp add: applyCommandConfig_def and_then_def apply_timestamp_def new_Command_def
      new_cli_def addOption_def conflicting_flag_def is_flag_def long_flag_def update_data_def
      flag_Option_def option_Option_def timestamp_Option_def abbr_prefix_def short_flag_def
      build_conf_def log_level_meta_def force_meta_def sdk_meta_def debugTrace_def)
  obtain c4 res4 where reg4: "applyCommandConfig (applyConfig 80) 80 new_cli ''build''
      (new_Command ''build'') sdk_only_conf = Inr (c4, res4)"
    by (simp add: applyCommandConfig_def and_then_def apply_timestamp_def new_Command_def
      new_cli_def sdk_only_conf_def sdk_meta_def debugTrace_def)
  have syn: "synthetic_timestamp log_level_conf" "synthetic_timestamp build_conf"
    "\<not> synthetic_timestamp sdk_only_conf"
    by (simp_all add: synthetic_timestamp_def log_level_conf_def build_conf_def
          sdk_only_conf_def)
  note a = synthetic_timestamp_flag [OF reg, where c' = "new_cli\<lparr>cli_ready := True\<rparr>"
      and supplied = "[(''timestamp'', None)]" and globals = "[global_sdk_Option]"
      and rt = plain_runtime and level = 3 and out = Stdout and msg = "''built''"]
  note b = synthetic_timestamp_flag [OF reg, where c' = new_cli
      and supplied = "[(''timestamp'', None)]" and globals = "[global_sdk_Option]"]
  note d = synthetic_timestamp_flag [OF reg3]
  note e = synthetic_timestamp_flag [OF reg4]
  have o1: "options_of res = [option_Option ''log-level'' log_level_meta, timestamp_Option]"
    and l1: "cmd_listeners (n_data res) = [(''option:timestamp'', EnableTimestampWhenReady)]"
    using a syn by (simp_all add: new_Command_def log_level_conf_def)
  obtain c2 where p1: "parse [global_sdk_Option] res [(''timestamp'', None)]
      (new_cli\<lparr>cli_ready := True\<rparr>)
      = Inr (c2, [(''timestamp'', VBool True), (''log-level'', VStr ''info''),
                  (''sdk'', VStr ''latest'')])"
    by (simp add: parse_def find_switch_def o1 defaults_of_def option_Option_def
        timestamp_Option_def global_sdk_Option_def log_level_meta_def)
  obtain c5 where p2: "parse [global_sdk_Option] res [(''timestamp'', None)] new_cli
      = Inr (c5, [(''timestamp'', VBool True), (''log-level'', VStr ''info''),
                  (''sdk'', VStr ''latest'')])"
    by (simp add: parse_def find_switch_def o1 defaults_of_def option_Option_def
        timestamp_Option_def global_sdk_Option_def log_level_meta_def)
  have r1: "render plain_runtime 3 Stdout ''built'' (cli_logger c2)
      = [Write Stdout ''2024-01-01T00:00:00.000Z - '', Write Stdout ''built'']"
    using a [of c2] syn p1
    by (simp add: new_cli_def new_Logger_def plain_runtime_def)
  have r2: "c5 = new_cli"
    using b [of c5] p2 by (simp add: new_cli_def)
  have o3: "options_of res3 = [flag_Option ''force'' force_meta,
                          option_Option ''log-level'' log_level_meta, timestamp_Option]"
    using d syn by (simp add: new_Command_def build_conf_def)
  have o4: "options_of res4 = [] \<and> cmd_listeners (n_data res4) = []"
    using e syn by (simp add: new_Command_def sdk_only_conf_def)
  show ?thesis
    unfolding reg reg3 reg4 using o1 l1 p1 p2 r1 r2 o3 o4 by simp
qed

section \<open>Properties of the top-level handler\<close>

lemma truthy_level_iff: "truthy_level l = (l \<noteq> Num 0 \<and> l \<noteq> Undefined)"
  by (cases l) simp_all


lemma top_level_catch_events:
  "snd (top_level_catch rt exitCode e c)
     = map Out
         (if p_level (cli_logger c) \<noteq> Num 0 \<and> p_level (cli_logger c) \<noteq> Undefined
             \<and> \<not> p_bannerRendered (cli_logger c)
          then [Write Stdout (p_banner (cli_logger c)), Write Stdout ''\<newline>'',
                Emit ''cli:logger-banner'']
          else [])
       @ (case failure_text rt e of
            None \<Rightarrow> [UncaughtTypeError]
          | Some text \<Rightarrow>
              Out (Write Stderr (text @ ''\<newline>''))
              # (case cli_command c of
                   Some cmd \<Rightarrow> [Help cmd, Exit exitCode]
                 | None \<Rightarrow>
                     (case cli_program c of
                        Some root \<Rightarrow> [Help root, Exit exitCode]
                      | None \<Rightarrow> [Exit 1])))"
  by (simp add: top_level_catch_def banner_def bannerEnabled_def skipBanner_def Let_def
        truthy_level_iff split: option.splits)






section \<open>Properties of registered options under the Dispatcher's parse\<close>

subsection \<open>Finding a registered option and its default\<close>

lemma find_append':
  "find P (xs @ ys) = (case find P xs of None \<Rightarrow> find P ys | Some x \<Rightarrow> Some x)"
  by (induction xs) simp_all

lemma find_None_names: "name \<notin> o_name ` set opts \<Longrightarrow> find (\<lambda>opt. o_name opt = name) opts = None"
  by (induction opts) auto

lemma find_fresh:
  "added_fresh init xs \<Longrightarrow> x \<in> set xs \<Longrightarrow>
   find (\<lambda>opt. o_name opt = o_name x) (init @ xs @ rest) = Some x"
proof (induction xs arbitrary: init)
  case Nil
  then show ?case by simp
next
  case (Cons a xs)
  show ?case
  proof (cases "x = a")
    case True
    have "find (\<lambda>opt. o_name opt = o_name a) init = None"
      using Cons.prems(1) by (intro find_None_names) simp
    then show ?thesis using True by (simp add: find_append')
  next
    case False
    then have "x \<in> set xs" using Cons.prems(2) by simp
    moreover have "added_fresh (init @ [a]) xs" using Cons.prems(1) by simp
    ultimately have "find (\<lambda>opt. o_name opt = o_name x) ((init @ [a]) @ xs @ rest) = Some x"
      by (rule Cons.IH [rotated])
    then show ?thesis by simp
  qed
qed

lemma defaults_of_append: "defaults_of (xs @ ys) = defaults_of xs @ defaults_of ys"
  by (simp add: defaults_of_def)

lemma map_of_append_lookup:
  "map_of (xs @ ys) k = (case map_of xs k of None \<Rightarrow> map_of ys k | Some v \<Rightarrow> Some v)"
  by (simp add: map_add_def)

lemma defaults_None_names: "name \<notin> o_name ` set opts \<Longrightarrow> map_of (defaults_of opts) name = None"
  by (induction opts) (auto simp add: defaults_of_def)

lemma defaults_fresh:
  "added_fresh init xs \<Longrightarrow> x \<in> set xs \<Longrightarrow> o_defaultValue x \<noteq> VUndefined \<Longrightarrow>
   map_of (defaults_of (init @ xs @ rest)) (o_name x) = Some (o_defaultValue x)"
proof (induction xs arbitrary: init)
  case Nil
  then show ?case by simp
next
  case (Cons a xs)
  show ?case
  proof (cases "x = a")
    case True
    have "map_of (defaults_of init) (o_name a) = None"
      using Cons.prems(1) by (intro defaults_None_names) simp
    then show ?thesis using True Cons.prems(3)
      by (simp add: defaults_of_def map_add_def)
  next
    case False
    then have "x \<in> set xs" using Cons.prems(2) by simp
    moreover have "added_fresh (init @ [a]) xs" using Cons.prems(1) by simp
    ultimately have "map_of (defaults_of ((init @ [a]) @ xs @ rest)) (o_name x)
        = Some (o_defaultValue x)"
      using Cons.prems(3) by (intro Cons.IH)
    then show ?thesis by simp
  qed
qed

lemma registered_option:
  assumes "applyCommandConfig ac width c cmdName cmd cf = Inr (c1, node)"
    and "(name, m) \<in> set (c_options cf)" and "name \<noteq> ''sdk''"
  shows "find_switch globals node name = Some (option_Option name m)"
    and "m_default m \<noteq> VUndefined \<Longrightarrow>
         map_of (defaults_of (options_of node @ globals)) name = Some (m_default m)"
proof -
  note r = applyCommandConfig_Inr [OF assms(1)]
  have mem: "option_Option name m \<in> set (registered_switches cf)"
    using assms(2,3) by (force simp add: registered_switches_def)
  have nm: "o_name (option_Option name m) = name"
    and dv: "o_defaultValue (option_Option name m) = m_default m"
    by (simp_all add: option_Option_def)
  show "find_switch globals node name = Some (option_Option name m)"
    using find_fresh [OF r(2) mem, of globals] unfolding find_switch_def r(1) nm by simp
  show "map_of (defaults_of (options_of node @ globals)) name = Some (m_default m)"
    if "m_default m \<noteq> VUndefined"
    using defaults_fresh [OF r(2) mem, of globals] that unfolding r(1) nm dv by simp
qed

subsection \<open>What the parse does with a known option\<close>

lemma parse_switches_error_node:
  "parse_switches globals cmd supplied st = Inl err \<Longrightarrow> \<exists>msg. err = UsageError cmd msg"
proof (induction supplied arbitrary: st)
  case Nil
  then show ?case by simp
next
  case (Cons x supplied)
  obtain n a where x: "x = (n, a)" by (cases x)
  obtain c vals where st: "st = (c, vals)" by (cases st)
  show ?case using Cons.prems Cons.IH unfolding x st
    by (auto split: option.splits if_splits)
qed

lemma parse_switches_rejects:
  assumes "find_switch globals cmd name = Some opt" "o_takes_value opt"
    "o_argChoices opt = Some allowed" "VStr v \<notin> set allowed"
  shows "(name, Some v) \<in> set supplied \<Longrightarrow>
         \<exists>msg. parse_switches globals cmd supplied st = Inl (UsageError cmd msg)"
proof (induction supplied arbitrary: st)
  case Nil
  then show ?case by simp
next
  case (Cons x supplied)
  obtain n a where x: "x = (n, a)" by (cases x)
  obtain c vals where st: "st = (c, vals)" by (cases st)
  show ?case
  proof (cases "x = (name, Some v)")
    case True
    then show ?thesis using assms unfolding st by simp
  next
    case False
    then have "(name, Some v) \<in> set supplied" using Cons.prems by simp
    then have ih: "\<exists>msg. parse_switches globals cmd supplied st' = Inl (UsageError cmd msg)" for st'
      by (rule Cons.IH)
    show ?thesis unfolding x st using ih
      by (auto split: option.splits)
  qed
qed

lemma parse_switches_value:
  assumes "find_switch globals cmd name = Some opt" "o_takes_value opt"
  shows "parse_switches globals cmd supplied (c, vals) = Inr (c', vals') \<Longrightarrow>
         map_of vals' name
           = (case supplied_value supplied name of
                None \<Rightarrow> map_of vals name
              | Some None \<Rightarrow> Some (VBool True)
              | Some (Some v) \<Rightarrow> Some (VStr v))"
proof (induction supplied arbitrary: c vals)
  case Nil
  then show ?case by (simp add: supplied_value_def)
next
  case (Cons x supplied)
  obtain n a where x: "x = (n, a)" by (cases x)
  have sv: "supplied_value (x # supplied) name
      = (case supplied_value supplied name of
           None \<Rightarrow> if n = name then Some a else None
         | Some r \<Rightarrow> Some r)"
    unfolding x supplied_value_def by (simp add: map_add_def split: option.splits)
  show ?case
  proof (cases "n = name")
    case True
    have step: "parse_switches globals cmd supplied
        (announce cmd n c, (n, case a of None \<Rightarrow> VBool True | Some v \<Rightarrow> VStr v) # vals)
        = Inr (c', vals')"
      using Cons.prems assms unfolding x True
      by (auto split: option.splits if_splits)
    show ?thesis
      unfolding sv Cons.IH [OF step] using True
      by (auto split: option.splits)
  next
    case False
    from Cons.prems [unfolded x] obtain w where
      step: "parse_switches globals cmd supplied (announce cmd n c, (n, w) # vals)
               = Inr (c', vals')"
      by (rule parse_switches_step)
    show ?thesis
      unfolding sv Cons.IH [OF step] using False
      by (auto split: option.splits)
  qed
qed

lemma dispatch_usage_error:
  "parse globals cmd supplied c = Inl err \<Longrightarrow> dispatch numstr globals cmd supplied c = Inl err"
  by (simp add: dispatch_def)

subsection \<open>Allowed values\<close>

text \<open>
  C6, as stated, fails for the reserved name: the Registrar skips an \<^verbatim>\<open>sdk\<close> entry of the
  \<^verbatim>\<open>options\<close> map, so its allowed values are never registered on the node; the node knows
  the global \<^verbatim>\<open>--sdk\<close> switch, which has no list of values, so a value outside the
  descriptor's set is accepted and the run behaviour is invoked.
\<close>

theorem sdk_values_not_enforced_counterexample:
  "m_values sdk_meta = Some [VStr ''12.0.0.GA'']
   \<and> (case applyCommandConfig (applyConfig 80) 80 new_cli ''build'' (new_Command ''build'')
            sdk_only_conf of
         Inl err \<Rightarrow> False
       | Inr (c1, node) \<Rightarrow>
           run_invoked (dispatch decimal [global_sdk_Option] node [(''sdk'', Some ''9.9.9'')]
                          new_cli))"
  by (simp add: applyCommandConfig_def and_then_def apply_timestamp_def new_Command_def
      new_cli_def sdk_only_conf_def sdk_meta_def debugTrace_def
      dispatch_def parse_def find_switch_def global_sdk_Option_def defaults_of_def
      announce_def)

text \<open>
  C6, amended. Take a call of the Registrar that succeeds and an entry of the descriptor's
  \<^verbatim>\<open>options\<close> map, not named \<^verbatim>\<open>sdk\<close>, whose \<^verbatim>\<open>values\<close> is an array. The array is registered
  as the choices of the option, and a command line that supplies the option with a value
  outside it ends in a usage error that names the node: the dispatch stops before the hooks
  and the run behaviour. On a node that carries the \<^verbatim>\<open>outputError\<close> of the Registrar, as every
  subcommand does, the report of that error makes the node the current command and throws
  a \<^verbatim>\<open>TiError\<close>, on which the top-level handler calls the help of that node.
\<close>

theorem out_of_set_value_is_usage_error:
  assumes "applyCommandConfig ac width c cmdName cmd cf = Inr (c1, node)"
    and "(name, m) \<in> set (c_options cf)" and "name \<noteq> ''sdk''"
    and "m_values m = Some allowed"
    and "(name, Some v) \<in> set supplied" and "VStr v \<notin> set allowed"
  shows "o_argChoices (option_Option name m) = Some allowed
   \<and> \<not> run_invoked (dispatch numstr globals node supplied c')
   \<and> (\<exists>msg. dispatch numstr globals node supplied c' = Inl (UsageError node msg)
          \<and> (OutputErrorRaises \<in> set (cmd_behaviours (n_data cmd)) \<longrightarrow>
               (\<exists>f. report_usage_error (UsageError node msg) ce
                       = Some (ce\<lparr>cli_command := Some node\<rparr>, f)
                    \<and> Help node
                        \<in> set (snd (top_level_catch rt exitCode f
                                       (ce\<lparr>cli_command := Some node\<rparr>))))))"
proof -
  have ch: "o_argChoices (option_Option name m) = Some allowed"
    by (simp add: option_Option_def assms(4))
  have tv: "o_takes_value (option_Option name m)" by (simp add: option_Option_def)
  have sw: "find_switch globals node name = Some (option_Option name m)"
    using assms(1-3) by (rule registered_option(1))
  have beh: "cmd_behaviours (n_data node) = cmd_behaviours (n_data cmd)"
    using assms(1) by (rule applyCommandConfig_Inr(4))
  obtain msg where "parse globals node supplied c' = Inl (UsageError node msg)"
    unfolding parse_def using parse_switches_rejects [OF sw tv ch assms(6) assms(5)] by blast
  then have err: "dispatch numstr globals node supplied c' = Inl (UsageError node msg)"
    by (rule dispatch_usage_error)
  then have norun: "\<not> run_invoked (dispatch numstr globals node supplied c')" by simp
  have rep: "report_usage_error (UsageError node msg) ce
               = Some (ce\<lparr>cli_command := Some node\<rparr>,
                       TiError (strip_error_prefix (''error: '' @ msg)) None None)"
    if "OutputErrorRaises \<in> set (cmd_behaviours (n_data cmd))"
    using that by (simp add: beh outputError_def)
  have hlp: "Help node
      \<in> set (snd (top_level_catch rt exitCode
                    (TiError (strip_error_prefix (''error: '' @ msg)) None None)
                    (ce\<lparr>cli_command := Some node\<rparr>)))"
    unfolding top_level_catch_events by simp
  from ch norun err rep hlp show ?thesis by blast
qed

theorem out_of_set_value_is_usage_error_witness:
  "(case applyCommandConfig (applyConfig 80) 80 new_cli ''build'' (new_subcommand 80 ''build'')
           build_conf of
      Inl err \<Rightarrow> False
    | Inr (c1, node) \<Rightarrow>
        dispatch decimal [global_sdk_Option] node
            [(''force'', None), (''log-level'', Some ''loud'')] new_cli
          = Inl (UsageError node ''invalid choice for --log-level'')
        \<and> \<not> run_invoked (dispatch decimal [global_sdk_Option] node
            [(''force'', None), (''log-level'', Some ''loud'')] new_cli)
        \<and> run_invoked (dispatch decimal [global_sdk_Option] node
            [(''force'', None), (''log-level'', Some ''debug'')] new_cli)
        \<and> report_usage_error (UsageError node ''invalid choice for --log-level'') new_cli
          = Some (new_cli\<lparr>cli_command := Some node\<rparr>,
                  TiError ''invalid choice for --log-level'' None None)
        \<and> Help node
            \<in> set (snd (top_level_catch plain_runtime 0
                          (TiError ''invalid choice for --log-level'' None None)
                          (new_cli\<lparr>cli_command := Some node\<rparr>))))"
proof -
  obtain c1 node where reg: "applyCommandConfig (applyConfig 80) 80 new_cli ''build''
      (new_subcommand 80 ''build'') build_conf = Inr (c1, node)"
    and opts: "options_of node = [flag_Option ''force'' force_meta,
                          option_Option ''log-level'' log_level_meta, timestamp_Option]"
    and hooks: "cmd_hooks (n_data node) = []"
    and lst: "cmd_listeners (n_data node) = [(''option:timestamp'', EnableTimestampWhenReady)]"
    and beh: "OutputErrorRaises \<in> set (cmd_behaviours (n_data node))"
    by (simp add: applyCommandConfig_def and_then_def apply_timestamp_def new_Command_def
      new_subcommand_def addListener_def
      new_cli_def addOption_def conflicting_flag_def is_flag_def long_flag_def update_data_def
      flag_Option_def option_Option_def timestamp_Option_def abbr_prefix_def short_flag_def
      build_conf_def log_level_meta_def force_meta_def sdk_meta_def debugTrace_def)
  have mem: "(''log-level'', log_level_meta) \<in> set (c_options build_conf)"
    by (simp add: build_conf_def)
  have ns: "''log-level'' \<noteq> ''sdk''" by simp
  have vs: "m_values log_level_meta
      = Some [VStr ''trace'', VStr ''debug'', VStr ''info'', VStr ''warn'', VStr ''error'']"
    by (simp add: log_level_meta_def)
  have out: "VStr ''loud''
      \<notin> set [VStr ''trace'', VStr ''debug'', VStr ''info'', VStr ''warn'', VStr ''error'']"
    by simp
  have sup: "(''log-level'', Some ''loud'') \<in> set [(''force'', None), (''log-level'', Some ''loud'')]"
    by simp
  have beh0: "OutputErrorRaises \<in> set (cmd_behaviours (n_data (new_subcommand 80 ''build'')))"
    by (simp add: new_subcommand_def update_data_def new_Command_def)
  note inst = out_of_set_value_is_usage_error [OF reg mem ns vs sup out,
      where numstr = decimal and globals = "[global_sdk_Option]" and c' = new_cli
        and ce = new_cli and rt = plain_runtime and exitCode = 0]
  have msg: "dispatch decimal [global_sdk_Option] node
            [(''force'', None), (''log-level'', Some ''loud'')] new_cli
          = Inl (UsageError node ''invalid choice for --log-level'')"
    by (simp add: dispatch_def parse_def find_switch_def opts flag_Option_def option_Option_def
          timestamp_Option_def global_sdk_Option_def log_level_meta_def force_meta_def)
  have ok: "run_invoked (dispatch decimal [global_sdk_Option] node
            [(''force'', None), (''log-level'', Some ''debug'')] new_cli)"
    by (simp add: dispatch_def parse_def find_switch_def opts hooks flag_Option_def
          option_Option_def timestamp_Option_def global_sdk_Option_def log_level_meta_def
          force_meta_def)
  have strip: "strip_error_prefix ''error: invalid choice for --log-level''
      = ''invalid choice for --log-level''"
    by (simp add: strip_error_prefix_def isWhiteSpace_def)
  show ?thesis
    unfolding reg using inst msg ok beh0 strip by (auto simp add: beh outputError_def)
qed

subsection \<open>Default values\<close>

text \<open>
  C7, as stated, fails for the reserved name: the Registrar skips an \<^verbatim>\<open>sdk\<close> entry of the
  \<^verbatim>\<open>options\<close> map, so its declared default is not registered on the node; when the command
  line omits \<^verbatim>\<open>--sdk\<close> the parsed value is the default of the global switch, \<^verbatim>\<open>latest\<close>, not
  the default the descriptor declares.
\<close>

theorem sdk_default_not_applied_counterexample:
  "m_default sdk_meta = VStr ''12.0.0.GA''
   \<and> (case applyCommandConfig (applyConfig 80) 80 new_cli ''build'' (new_Command ''build'')
            sdk_only_conf of
         Inl err \<Rightarrow> False
       | Inr (c1, node) \<Rightarrow>
           (case parse [global_sdk_Option] node [] new_cli of
              Inl err \<Rightarrow> False
            | Inr (c2, vals) \<Rightarrow> map_of vals ''sdk'' = Some (VStr ''latest'')))"
  by (simp add: applyCommandConfig_def and_then_def apply_timestamp_def new_Command_def
      new_cli_def sdk_only_conf_def sdk_meta_def debugTrace_def
      parse_def global_sdk_Option_def defaults_of_def)

text \<open>
  C7, amended. Take a call of the Registrar that succeeds and an entry of the descriptor's
  \<^verbatim>\<open>options\<close> map, not named \<^verbatim>\<open>sdk\<close>, with a default. The default is registered on the
  option. After a successful parse the value of the name is exactly the default when the
  command line omits the option; when it supplies the option, the value is the one of the
  last occurrence, \<^verbatim>\<open>true\<close> when that occurrence has no value. The value a \<^verbatim>\<open>preAction\<close> hook
  of the option reads is the same, except that an empty string falls back to the default.
\<close>

theorem option_default_and_override:
  assumes "applyCommandConfig ac width c cmdName cmd cf = Inr (c1, node)"
    and "(name, m) \<in> set (c_options cf)" and "name \<noteq> ''sdk''"
    and "m_default m \<noteq> VUndefined"
    and "parse globals node supplied c' = Inr (c2, vals)"
  shows "o_defaultValue (option_Option name m) = m_default m
   \<and> map_of vals name
       = Some (case supplied_value supplied name of
                 None \<Rightarrow> m_default m
               | Some None \<Rightarrow> VBool True
               | Some (Some v) \<Rightarrow> VStr v)
   \<and> hook_value vals (option_hook cf name m)
       = (case supplied_value supplied name of
            None \<Rightarrow> m_default m
          | Some None \<Rightarrow> VBool True
          | Some (Some v) \<Rightarrow> if v = [] then m_default m else VStr v)"
proof -
  have sw: "find_switch globals node name = Some (option_Option name m)"
    using assms(1-3) by (rule registered_option(1))
  have tv: "o_takes_value (option_Option name m)" by (simp add: option_Option_def)
  have d: "map_of (defaults_of (options_of node @ globals)) name = Some (m_default m)"
    using assms(1-4) by (rule registered_option(2))
  have val: "map_of vals name
       = Some (case supplied_value supplied name of
                 None \<Rightarrow> m_default m
               | Some None \<Rightarrow> VBool True
               | Some (Some v) \<Rightarrow> VStr v)"
    using parse_switches_value [OF sw tv assms(5) [unfolded parse_def]] d
    by (simp split: option.splits)
  have hv: "hook_value vals (option_hook cf name m)
       = (case supplied_value supplied name of
            None \<Rightarrow> m_default m
          | Some None \<Rightarrow> VBool True
          | Some (Some v) \<Rightarrow> if v = [] then m_default m else VStr v)"
    by (simp add: hook_value_def option_hook_def val option_Option_def Let_def
          split: option.splits)
  from val hv show ?thesis by (simp add: option_Option_def)
qed

theorem option_default_and_override_witness:
  "(case applyCommandConfig (applyConfig 80) 80 new_cli ''build'' (new_Command ''build'')
           build_conf of
      Inl err \<Rightarrow> False
    | Inr (c1, node) \<Rightarrow>
        (case parse [global_sdk_Option] node [(''force'', None)] new_cli of
           Inl err \<Rightarrow> False
         | Inr (c2, vals) \<Rightarrow>
             map_of vals ''log-level'' = Some (VStr ''info'')
             \<and> hook_value vals (option_hook build_conf ''log-level'' log_level_meta)
                 = VStr ''info'')
        \<and> (case parse [global_sdk_Option] node
                   [(''log-level'', Some ''warn''), (''log-level'', Some ''debug'')] new_cli of
           Inl err \<Rightarrow> False
         | Inr (c2, vals) \<Rightarrow>
             map_of vals ''log-level'' = Some (VStr ''debug'')
             \<and> hook_value vals (option_hook build_conf ''log-level'' log_level_meta)
                 = VStr ''debug''))"
proof -
  obtain c1 node where reg: "applyCommandConfig (applyConfig 80) 80 new_cli ''build''
      (new_Command ''build'') build_conf = Inr (c1, node)"
    and opts: "options_of node = [flag_Option ''force'' force_meta,
                          option_Option ''log-level'' log_level_meta, timestamp_Option]"
    by (simp add: applyCommandConfig_def and_then_def apply_timestamp_def new_Command_def
      addListener_def new_cli_def addOption_def conflicting_flag_def is_flag_def long_flag_def update_data_def
      flag_Option_def option_Option_def timestamp_Option_def abbr_prefix_def short_flag_def
      build_conf_def log_level_meta_def force_meta_def sdk_meta_def debugTrace_def)
  have mem: "(''log-level'', log_level_meta) \<in> set (c_options build_conf)"
    by (simp add: build_conf_def)
  have ns: "''log-level'' \<noteq> ''sdk''" by simp
  have dflt: "m_default log_level_meta \<noteq> VUndefined" by (simp add: log_level_meta_def)
  obtain c2 vals where p1: "parse [global_sdk_Option] node [(''force'', None)] new_cli
      = Inr (c2, vals)"
    by (simp add: parse_def find_switch_def opts flag_Option_def option_Option_def
          timestamp_Option_def global_sdk_Option_def)
  obtain c3 vals3 where p2: "parse [global_sdk_Option] node
      [(''log-level'', Some ''warn''), (''log-level'', Some ''debug'')] new_cli = Inr (c3, vals3)"
    by (simp add: parse_def find_switch_def opts flag_Option_def option_Option_def
          timestamp_Option_def global_sdk_Option_def log_level_meta_def)
  note a = option_default_and_override [OF reg mem ns dflt p1]
  note b = option_default_and_override [OF reg mem ns dflt p2]
  show ?thesis
    unfolding reg using a b
    by (simp add: p1 p2 supplied_value_def log_level_meta_def)
qed

end
